theory Spec2Isabelle
  imports Complex_Main "HOL-Library.Char_ord" "HOL-Library.List_Lexorder" "HOL-Library.Multiset"
begin

section \<open>Strings and numbers of the host language\<close>

text \<open>
  JavaScript strings are modelled as \<open>string\<close>. SQLite compares TEXT values byte by byte,
  which is the lexicographic order on \<open>char list\<close>.
\<close>

definition startsWith :: "string \<Rightarrow> string \<Rightarrow> bool" where
  "startsWith s p = (take (length p) s = p)"

fun str_includes :: "string \<Rightarrow> string \<Rightarrow> bool" where
  "str_includes [] p = (p = [])"
| "str_includes (c # cs) p = (startsWith (c # cs) p \<or> str_includes cs p)"

definition endsWith :: "string \<Rightarrow> string \<Rightarrow> bool" where
  "endsWith s p = (length p \<le> length s \<and> drop (length s - length p) s = p)"

text \<open>\<open>s.split(sep)\<close> for a one-character separator: the empty string gives one empty piece.\<close>

fun str_split :: "char \<Rightarrow> string \<Rightarrow> string list" where
  "str_split sep [] = [[]]"
| "str_split sep (c # cs) =
     (if c = sep then [] # str_split sep cs
      else (case str_split sep cs of
              [] \<Rightarrow> [[c]]
            | w # ws \<Rightarrow> (c # w) # ws))"

definition padStart :: "nat \<Rightarrow> char \<Rightarrow> string \<Rightarrow> string" where
  "padStart n c s = replicate (n - length s) c @ s"

definition digit_char :: "nat \<Rightarrow> char" where
  "digit_char d = ''0123456789'' ! d"

text \<open>\<open>String(n)\<close> for a non-negative integer \<open>n\<close>.\<close>

fun show_nat :: "nat \<Rightarrow> string" where
  "show_nat n = (if n < 10 then [digit_char n] else show_nat (n div 10) @ [digit_char (n mod 10)])"

declare show_nat.simps [simp del]

definition show_int :: "int \<Rightarrow> string" where
  "show_int i = (if i < 0 then ''-'' @ show_nat (nat (- i)) else show_nat (nat i))"

text \<open>
  \<open>Math.round\<close> rounds to the nearest integer, halves upwards. The quotients the program
  rounds are quotients of integers, which it computes in double precision; they are
  computed here in the rationals.
\<close>

definition Math_round :: "rat \<Rightarrow> int" where
  "Math_round x = \<lfloor>x + 1 / 2\<rfloor>"

text \<open>
  \<open>a % b === 0\<close> for a non-negative \<open>a\<close> and an integer \<open>b\<close>: the remainder by zero is
  \<open>NaN\<close>, which is not equal to \<open>0\<close>.
\<close>

definition rem_is_zero :: "nat \<Rightarrow> int \<Rightarrow> bool" where
  "rem_is_zero a b = (b \<noteq> 0 \<and> int a mod \<bar>b\<bar> = 0)"

definition path_join :: "string \<Rightarrow> string \<Rightarrow> string \<Rightarrow> string" where
  "path_join a b c = a @ ''/'' @ b @ ''/'' @ c"


section \<open>Environment variables and start-up validation\<close>

text \<open>
  An integer setting is read as \<open>parseInt(process.env.X) || d\<close>. The value of \<open>parseInt\<close> is
  the input here: \<open>None\<close> stands for \<open>NaN\<close> (the variable is unset or does not start with a
  number). \<open>||\<close> takes its right operand when the left one is \<open>NaN\<close> or \<open>0\<close>.
\<close>

definition or_default :: "int option \<Rightarrow> int \<Rightarrow> int" where
  "or_default p d = (case p of None \<Rightarrow> d | Some v \<Rightarrow> if v = 0 then d else v)"

definition or_default_str :: "string option \<Rightarrow> string \<Rightarrow> string" where
  "or_default_str p d = (case p of None \<Rightarrow> d | Some v \<Rightarrow> if v = [] then d else v)"

record environment =
  env_MONGO_CONNECTION_STRING :: "string option"
  env_DAILY_BACKUP_INTERVAL_MINUTES :: "int option"
  env_MAX_DAILY_BACKUPS :: "int option"
  env_NUMBER_OF_WEEKLY_BACKUPS :: "int option"
  env_MAX_AGE_OF_WEEKLY_BACKUPS :: "int option"
  env_NUMBER_OF_MONTHLY_BACKUPS :: "int option"
  env_MAX_AGE_OF_MONTHLY_BACKUPS :: "int option"
  env_NUMBER_OF_YEARLY_BACKUPS :: "int option"
  env_MAX_AGE_OF_YEARLY_BACKUPS :: "int option"
  env_BACKUP_PATH :: "string option"
  env_WEB_UI_PORT :: "int option"
  env_TIMEZONE :: "string option"

record config =
  MONGO_CONNECTION_STRING :: "string option"
  DAILY_BACKUP_INTERVAL_MINUTES :: int
  MAX_DAILY_BACKUPS :: int
  NUMBER_OF_WEEKLY_BACKUPS :: int
  MAX_AGE_OF_WEEKLY_BACKUPS :: int
  NUMBER_OF_MONTHLY_BACKUPS :: int
  MAX_AGE_OF_MONTHLY_BACKUPS :: int
  NUMBER_OF_YEARLY_BACKUPS :: int
  MAX_AGE_OF_YEARLY_BACKUPS :: int
  BACKUP_PATH :: string
  WEB_UI_PORT :: int
  TIMEZONE :: string

definition load_config :: "environment \<Rightarrow> config" where
  "load_config env =
     \<lparr> MONGO_CONNECTION_STRING = env_MONGO_CONNECTION_STRING env,
       DAILY_BACKUP_INTERVAL_MINUTES = or_default (env_DAILY_BACKUP_INTERVAL_MINUTES env) 60,
       MAX_DAILY_BACKUPS = or_default (env_MAX_DAILY_BACKUPS env) (- 1),
       NUMBER_OF_WEEKLY_BACKUPS = or_default (env_NUMBER_OF_WEEKLY_BACKUPS env) 7,
       MAX_AGE_OF_WEEKLY_BACKUPS = or_default (env_MAX_AGE_OF_WEEKLY_BACKUPS env) 4,
       NUMBER_OF_MONTHLY_BACKUPS = or_default (env_NUMBER_OF_MONTHLY_BACKUPS env) 12,
       MAX_AGE_OF_MONTHLY_BACKUPS = or_default (env_MAX_AGE_OF_MONTHLY_BACKUPS env) 12,
       NUMBER_OF_YEARLY_BACKUPS = or_default (env_NUMBER_OF_YEARLY_BACKUPS env) 5,
       MAX_AGE_OF_YEARLY_BACKUPS = or_default (env_MAX_AGE_OF_YEARLY_BACKUPS env) 5,
       BACKUP_PATH = or_default_str (env_BACKUP_PATH env) ''/backups'',
       WEB_UI_PORT = or_default (env_WEB_UI_PORT env) 3000,
       TIMEZONE = or_default_str (env_TIMEZONE env) ''UTC'' \<rparr>"

text \<open>
  The checks at module level, before anything is scheduled: \<open>process.exit(1)\<close> when the
  connection string is missing or empty, and when \<open>MAX_DAILY_BACKUPS === 0\<close>.
\<close>

datatype startup = Exit nat | Proceed config

definition validate_environment :: "environment \<Rightarrow> startup" where
  "validate_environment env =
     (let cfg = load_config env in
      if MONGO_CONNECTION_STRING cfg = None \<or> MONGO_CONNECTION_STRING cfg = Some [] then Exit 1
      else if MAX_DAILY_BACKUPS cfg = 0 then Exit 1
      else Proceed cfg)"


section \<open>Clock readings\<close>

text \<open>
  A \<open>moment\<close> in the configured time zone, by its calendar fields (month 1 to 12).
\<close>

record moment =
  m_year :: nat
  m_month :: nat
  m_date :: nat
  m_hour :: nat
  m_minute :: nat
  m_second :: nat

definition isLeapYear :: "nat \<Rightarrow> bool" where
  "isLeapYear y = ((y mod 4 = 0 \<and> y mod 100 \<noteq> 0) \<or> y mod 400 = 0)"

definition daysInMonth :: "nat \<Rightarrow> nat \<Rightarrow> nat" where
  "daysInMonth y mo =
     (if mo = 2 then (if isLeapYear y then 29 else 28)
      else if mo = 4 \<or> mo = 6 \<or> mo = 9 \<or> mo = 11 then 30 else 31)"

definition dayOfYear :: "moment \<Rightarrow> nat" where
  "dayOfYear m = sum_list (map (daysInMonth (m_year m)) [1 ..< m_month m]) + m_date m"

text \<open>\<open>format('YYYY-MM-DD')\<close>.\<close>

definition format_date :: "moment \<Rightarrow> string" where
  "format_date m =
     padStart 4 CHR ''0'' (show_nat (m_year m)) @ ''-'' @
     padStart 2 CHR ''0'' (show_nat (m_month m)) @ ''-'' @
     padStart 2 CHR ''0'' (show_nat (m_date m))"

text \<open>
  \<open>subtract(n, unit)\<close> for the three units of the retention table. Weeks are seven
  calendar days each; months keep the day of the month, cut down to the length of the
  month reached; years are twelve months each.
\<close>

datatype age_unit = Weeks | Months | Years

definition prev_day :: "moment \<Rightarrow> moment" where
  "prev_day m =
     (if 1 < m_date m then m\<lparr>m_date := m_date m - 1\<rparr>
      else if 1 < m_month m
        then m\<lparr>m_month := m_month m - 1, m_date := daysInMonth (m_year m) (m_month m - 1)\<rparr>
      else m\<lparr>m_year := m_year m - 1, m_month := 12, m_date := 31\<rparr>)"

fun subtract_days :: "nat \<Rightarrow> moment \<Rightarrow> moment" where
  "subtract_days 0 m = m"
| "subtract_days (Suc n) m = subtract_days n (prev_day m)"

definition subtract_months :: "nat \<Rightarrow> moment \<Rightarrow> moment" where
  "subtract_months n m =
     (let total = int (m_year m) * 12 + (int (m_month m) - 1) - int n;
          y = nat (total div 12);
          mo = nat (total mod 12) + 1
      in m\<lparr>m_year := y, m_month := mo, m_date := min (m_date m) (daysInMonth y mo)\<rparr>)"

definition moment_subtract :: "nat \<Rightarrow> age_unit \<Rightarrow> moment \<Rightarrow> moment" where
  "moment_subtract n u m =
     (case u of
        Weeks \<Rightarrow> subtract_days (7 * n) m
      | Months \<Rightarrow> subtract_months n m
      | Years \<Rightarrow> subtract_months (12 * n) m)"

text \<open>A \<open>Date\<close> in the process's local time, by the getters the program calls.\<close>

record js_date =
  getFullYear :: nat
  getMonth :: nat
  getDate :: nat
  getHours :: nat
  getMinutes :: nat
  getSeconds :: nat


section \<open>Backup types and the schedule\<close>

datatype cadence = Daily | Weekly | Monthly | Yearly

definition type_name :: "cadence \<Rightarrow> string" where
  "type_name t = (case t of Daily \<Rightarrow> ''daily'' | Weekly \<Rightarrow> ''weekly''
                   | Monthly \<Rightarrow> ''monthly'' | Yearly \<Rightarrow> ''yearly'')"

definition determineBackupType :: "config \<Rightarrow> moment \<Rightarrow> cadence" where
  "determineBackupType cfg now =
     (let hour = m_hour now;
          minute = m_minute now;
          dayOfMonth = m_date now;
          doy = dayOfYear now
      in
      if 0 < NUMBER_OF_YEARLY_BACKUPS cfg \<and> doy = 1 \<and> hour = 0 \<and> minute = 0 then Yearly
      else if 0 < NUMBER_OF_MONTHLY_BACKUPS cfg \<and> dayOfMonth = 1 \<and> hour = 0 \<and> minute = 0
        then Monthly
      else if 0 < NUMBER_OF_WEEKLY_BACKUPS cfg \<and>
              (let backupsPerDay = of_int (NUMBER_OF_WEEKLY_BACKUPS cfg) / 7;
                   hoursPerBackup = 24 / backupsPerDay
               in minute = 0 \<and> rem_is_zero hour (Math_round hoursPerBackup))
        then Weekly
      else Daily)"


section \<open>Names and statistics\<close>

text \<open>
  What the program asks of its libraries: the path of \<open>new URL(s)\<close> (\<open>None\<close> when the
  constructor throws), and SQLite's \<open>date\<close> and \<open>datetime\<close> of a text (\<open>None\<close> for NULL).
\<close>

record library =
  url_pathname :: "string \<Rightarrow> string option"
  sql_date :: "string \<Rightarrow> string option"
  sql_datetime :: "string \<Rightarrow> string option"

definition extractDatabaseName :: "library \<Rightarrow> string option \<Rightarrow> string" where
  "extractDatabaseName lib connectionString =
     (case connectionString of
        None \<Rightarrow> ''default''
      | Some c \<Rightarrow>
          (case url_pathname lib c of
             None \<Rightarrow> ''default''
           | Some p \<Rightarrow> (let dbName = drop 1 p in if dbName = [] then ''default'' else dbName)))"

definition generateBackupFolderName :: "js_date \<Rightarrow> string \<Rightarrow> string" where
  "generateBackupFolderName now dbName =
     (let year = show_nat (getFullYear now);
          month = padStart 2 CHR ''0'' (show_nat (getMonth now + 1));
          day = padStart 2 CHR ''0'' (show_nat (getDate now));
          hour = padStart 2 CHR ''0'' (show_nat (getHours now));
          minute = padStart 2 CHR ''0'' (show_nat (getMinutes now));
          second = padStart 2 CHR ''0'' (show_nat (getSeconds now))
      in year @ month @ day @ ''_'' @ hour @ minute @ second @ ''_'' @ dbName)"

record stats =
  collections :: nat
  documents :: nat
  indexes :: nat

definition parseBackupStats :: "string \<Rightarrow> stats" where
  "parseBackupStats stdout =
     fold (\<lambda>line st. if str_includes line ''done dumping''
                      then st\<lparr>collections := collections st + 1\<rparr> else st)
          (str_split (CHR 0x0A) stdout)
          \<lparr>collections = 0, documents = 0, indexes = 0\<rparr>"


section \<open>The metadata table, the artifact directories, the run state\<close>

datatype backup_status = Success | Failed

datatype level = INFO | WARN | ERROR

text \<open>
  The object given to \<open>saveBackupMetadata\<close>. The lines of \<open>backupLogs\<close> are kept as
  pairs of level and message: the time stamp in front of each line is left out, and the
  lines are not joined.
\<close>

record metadata =
  md_timestamp :: string
  md_type :: cadence
  md_folderName :: string
  md_databaseName :: string
  md_status :: backup_status
  md_duration :: int
  md_collections :: nat
  md_documents :: nat
  md_indexes :: nat
  md_errorMessage :: "string option"
  md_backupSize :: nat
  md_backupLogs :: "(level \<times> string) list"

text \<open>A row of the table \<open>backups\<close>.\<close>

record backup_row =
  row_id :: nat
  row_timestamp :: string
  row_type :: cadence
  folder_name :: string
  database_name :: string
  row_status :: backup_status
  duration_seconds :: int
  collections_count :: nat
  documents_count :: nat
  indexes_count :: nat
  error_message :: "string option"
  backup_size_bytes :: nat
  backup_logs :: "(level \<times> string) list"

record backup_info =
  info_type :: cadence
  info_folderName :: string
  info_startTime :: string

text \<open>
  What the program does to the outside, in the order in which it does it: assignments to
  the run lock, lines given to the process logger (by level), directories made and
  removed, the dump command launched, rows inserted, the retry timer of the backfill.
\<close>

datatype effect =
    SetRunning bool
  | Logged level
  | Mkdir string
  | Exec string
  | Insert backup_row
  | Rm string
  | RetryTimer

text \<open>
  The state of the process and of its volume: the two globals, the rows of the table in
  the order of their insertion, the paths of the existing backup directories, and the
  effects so far.
\<close>

record state =
  isBackupRunning :: bool
  currentBackupInfo :: "backup_info option"
  backups :: "backup_row list"
  dirs :: "string set"
  trace :: "effect list"

definition emit :: "effect \<Rightarrow> state \<Rightarrow> state" where
  "emit e s = s\<lparr>trace := trace s @ [e]\<rparr>"

text \<open>\<open>INTEGER PRIMARY KEY AUTOINCREMENT\<close>: one more than the largest id of the table.\<close>

definition next_id :: "backup_row list \<Rightarrow> nat" where
  "next_id rows = Suc (fold max (map row_id rows) 0)"

definition row_of_metadata :: "nat \<Rightarrow> metadata \<Rightarrow> backup_row" where
  "row_of_metadata lastID md =
     \<lparr> row_id = lastID,
       row_timestamp = md_timestamp md,
       row_type = md_type md,
       folder_name = md_folderName md,
       database_name = md_databaseName md,
       row_status = md_status md,
       duration_seconds = md_duration md,
       collections_count = md_collections md,
       documents_count = md_documents md,
       indexes_count = md_indexes md,
       error_message = md_errorMessage md,
       backup_size_bytes = md_backupSize md,
       backup_logs = md_backupLogs md \<rparr>"

definition saveBackupMetadata :: "metadata \<Rightarrow> state \<Rightarrow> state" where
  "saveBackupMetadata md s =
     (let row = row_of_metadata (next_id (backups s)) md
      in emit (Insert row) (s\<lparr>backups := backups s @ [row]\<rparr>))"


section \<open>Retention\<close>

text \<open>
  \<open>ORDER BY timestamp DESC\<close>: the rows by falling text of the time stamp. The statement
  names no second key; rows of one time stamp stay in the order of the table, as a stable
  sort of the scan leaves them.
\<close>

fun insert_desc :: "backup_row \<Rightarrow> backup_row list \<Rightarrow> backup_row list" where
  "insert_desc r [] = [r]"
| "insert_desc r (x # xs) =
     (if row_timestamp x < row_timestamp r then r # x # xs else x # insert_desc r xs)"

definition order_by_timestamp_desc :: "backup_row list \<Rightarrow> backup_row list" where
  "order_by_timestamp_desc rows = foldr insert_desc (rev rows) []"

text \<open>
  The two statements of \<open>cleanupOldBackups\<close>, with their parameters, and the rows they
  select. A NULL date matches no comparison.
\<close>

datatype query = DailyQuery string | AgeQuery cadence string

definition select_daily :: "library \<Rightarrow> string \<Rightarrow> backup_row list \<Rightarrow> backup_row list" where
  "select_daily lib today rows =
     order_by_timestamp_desc
       (filter (\<lambda>r. row_type r = Daily \<and> row_status r = Success \<and>
                     sql_date lib (row_timestamp r) = Some today) rows)"

definition select_older :: "library \<Rightarrow> cadence \<Rightarrow> string \<Rightarrow> backup_row list \<Rightarrow> backup_row list" where
  "select_older lib t cutoffDate rows =
     filter (\<lambda>r. row_type r = t \<and>
                  (case sql_date lib (row_timestamp r) of None \<Rightarrow> False | Some d \<Rightarrow> d < cutoffDate))
            rows"

text \<open>The loop over the selected rows: a directory that exists is removed and logged.\<close>

fun remove_folders :: "config \<Rightarrow> cadence \<Rightarrow> backup_row list \<Rightarrow> state \<Rightarrow> state" where
  "remove_folders cfg t [] s = s"
| "remove_folders cfg t (backup # rest) s =
     (let backupPath = path_join (BACKUP_PATH cfg) (type_name t) (folder_name backup)
      in remove_folders cfg t rest
           (if backupPath \<in> dirs s
            then emit (Logged INFO) (emit (Rm backupPath) (s\<lparr>dirs := dirs s - {backupPath}\<rparr>))
            else s))"

definition ageConfigs :: "config \<Rightarrow> (cadence \<times> int \<times> age_unit) list" where
  "ageConfigs cfg =
     [(Weekly, MAX_AGE_OF_WEEKLY_BACKUPS cfg, Weeks),
      (Monthly, MAX_AGE_OF_MONTHLY_BACKUPS cfg, Months),
      (Yearly, MAX_AGE_OF_YEARLY_BACKUPS cfg, Years)]"

text \<open>
  \<open>cleanupOldBackups\<close> gives its statements to the database and returns; the deletions
  happen in the callbacks, when the rows arrive. The function here returns the statements
  it issued; \<open>query_callback\<close> is the callback of one of them, run on the table as it is
  then. The Boolean says that the database reported an error instead of rows.
\<close>

definition cleanupOldBackups :: "config \<Rightarrow> moment \<Rightarrow> cadence \<Rightarrow> query list" where
  "cleanupOldBackups cfg now backupType =
     (if backupType = Daily \<and> 0 < MAX_DAILY_BACKUPS cfg then [DailyQuery (format_date now)] else [])
     @ concat (map (\<lambda>(t, maxAge, unit).
                 if backupType = t \<and> 0 < maxAge
                 then [AgeQuery t (format_date (moment_subtract (nat maxAge) unit now))]
                 else [])
               (ageConfigs cfg))"

definition query_callback :: "config \<Rightarrow> library \<Rightarrow> query \<times> bool \<Rightarrow> state \<Rightarrow> state" where
  "query_callback cfg lib q s =
     (case q of
        (DailyQuery today, err) \<Rightarrow>
          if err then emit (Logged ERROR) s
          else (let rows = select_daily lib today (backups s) in
                if MAX_DAILY_BACKUPS cfg < int (length rows)
                then remove_folders cfg Daily (drop (nat (MAX_DAILY_BACKUPS cfg)) rows) s
                else s)
      | (AgeQuery t cutoffDate, err) \<Rightarrow>
          if err then s
          else remove_folders cfg t (select_older lib t cutoffDate (backups s)) s)"

definition run_callbacks :: "config \<Rightarrow> library \<Rightarrow> (query \<times> bool) list \<Rightarrow> state \<Rightarrow> state" where
  "run_callbacks cfg lib qs s = fold (query_callback cfg lib) qs s"


section \<open>One backup attempt\<close>

text \<open>
  What the outside world answers to one call of \<open>performBackup\<close>: the clock readings in
  the order of the program text, and the outcomes of the directory creation, of the dump,
  of the file system scans and of the two inserts.
\<close>

datatype dump_outcome = DumpOk string string | DumpError string

record attempt_world =
  w_moment :: moment
  w_start_ms :: int
  w_timestamp :: string
  w_folder_date :: js_date
  w_mkdir_error :: "string option"
  w_dump :: dump_outcome
  w_end_ms :: int
  w_dir_size :: nat
  w_db_dir :: "string list option"
  w_save_error :: "string option"
  w_cleanup_moment :: moment
  w_query_error :: bool
  w_fail_ms :: int
  w_fail_folder_date :: js_date
  w_fail_save_error :: "string option"

text \<open>
  The variables of a running call that live across its \<open>await\<close>s, and the \<open>await\<close> at
  which it is suspended: for the dump (with \<open>dbName\<close>, \<open>backupFolderName\<close>,
  \<open>backupDir\<close>), for the insert of the success record, for \<open>cleanupOldBackups\<close>, for the
  insert of the failure record in the \<open>catch\<close> block.
\<close>

record locals =
  l_world :: attempt_world
  l_backupType :: cadence
  l_backupLogs :: "(level \<times> string) list"

datatype await_point =
    AwaitDump string string string
  | AwaitSaveSuccess metadata
  | AwaitCleanup
  | AwaitSaveFailure metadata

type_synonym attempt = "locals \<times> await_point"

definition backupLogger :: "level \<Rightarrow> string \<Rightarrow> locals \<times> state \<Rightarrow> locals \<times> state" where
  "backupLogger lv msg = (\<lambda>(l, s). (l\<lparr>l_backupLogs := l_backupLogs l @ [(lv, msg)]\<rparr>, emit (Logged lv) s))"

definition elapsed_seconds :: "int \<Rightarrow> int \<Rightarrow> int" where
  "elapsed_seconds now startTime = Math_round (of_int (now - startTime) / 1000)"

text \<open>The \<open>catch\<close> block, up to its \<open>await\<close>.\<close>

definition catch_block :: "config \<Rightarrow> library \<Rightarrow> string \<Rightarrow> locals \<Rightarrow> state \<Rightarrow> attempt \<times> state" where
  "catch_block cfg lib message l s =
     (let w = l_world l;
          backupType = l_backupType l;
          duration = elapsed_seconds (w_fail_ms w) (w_start_ms w);
          (l1, s1) = backupLogger ERROR
                       (type_name backupType @ '' backup failed after '' @ show_int duration
                          @ '' seconds: '' @ message) (l, s);
          dbName = extractDatabaseName lib (MONGO_CONNECTION_STRING cfg);
          backupFolderName = generateBackupFolderName (w_fail_folder_date w) dbName;
          md = \<lparr> md_timestamp = w_timestamp w,
                 md_type = backupType,
                 md_folderName = backupFolderName,
                 md_databaseName = dbName,
                 md_status = Failed,
                 md_duration = duration,
                 md_collections = 0,
                 md_documents = 0,
                 md_indexes = 0,
                 md_errorMessage = Some message,
                 md_backupSize = 0,
                 md_backupLogs = l_backupLogs l1 \<rparr>
      in ((l1, AwaitSaveFailure md), s1))"

text \<open>The \<open>finally\<close> block.\<close>

definition finally_block :: "state \<Rightarrow> state" where
  "finally_block s = emit (SetRunning False) (s\<lparr>isBackupRunning := False, currentBackupInfo := None\<rparr>)"

definition mongodump_command :: "config \<Rightarrow> string \<Rightarrow> string" where
  "mongodump_command cfg backupDir =
     (let quote = [CHR 0x22] in
      ''mongodump'' @ '' '' @
      ''--uri='' @ quote @ (case MONGO_CONNECTION_STRING cfg of None \<Rightarrow> ''undefined'' | Some c \<Rightarrow> c)
        @ quote @ '' '' @
      ''--out='' @ quote @ backupDir @ quote @ '' '' @
      ''--readPreference=secondaryPreferred'' @ '' '' @
      ''--numParallelCollections=1'' @ '' '' @
      ''--quiet'')"

text \<open>
  The call itself, up to its first \<open>await\<close>: the guard, the lock, the directory, the
  launch of the dump. \<open>None\<close>: the call returned at the guard.
\<close>

definition performBackup_call ::
  "config \<Rightarrow> library \<Rightarrow> attempt_world \<Rightarrow> cadence option \<Rightarrow> state \<Rightarrow> attempt option \<times> state" where
  "performBackup_call cfg lib w backupType0 s =
     (if isBackupRunning s then (None, emit (Logged WARN) s)
      else
        let backupType = (case backupType0 of None \<Rightarrow> determineBackupType cfg (w_moment w)
                                             | Some t \<Rightarrow> t);
            s1 = emit (SetRunning True) (s\<lparr>isBackupRunning := True\<rparr>);
            l0 = \<lparr>l_world = w, l_backupType = backupType, l_backupLogs = []\<rparr>;
            (l1, s2) = backupLogger INFO
                         (''Starting '' @ type_name backupType @ '' MongoDB backup...'') (l0, s1);
            dbName = extractDatabaseName lib (MONGO_CONNECTION_STRING cfg);
            backupFolderName = generateBackupFolderName (w_folder_date w) dbName;
            backupDir = path_join (BACKUP_PATH cfg) (type_name backupType) backupFolderName;
            s3 = s2\<lparr>currentBackupInfo :=
                      Some \<lparr>info_type = backupType, info_folderName = backupFolderName,
                            info_startTime = w_timestamp w\<rparr>\<rparr>
        in (case w_mkdir_error w of
              Some message \<Rightarrow>
                (let (a, s') = catch_block cfg lib message l1 s3 in (Some a, s'))
            | None \<Rightarrow>
                (let s4 = emit (Mkdir backupDir) (s3\<lparr>dirs := insert backupDir (dirs s3)\<rparr>);
                     (l2, s5) = backupLogger INFO (''Created backup directory: '' @ backupDir) (l1, s4);
                     (l3, s6) = backupLogger INFO
                                  (''Executing '' @ type_name backupType @ '' backup command'') (l2, s5);
                     s7 = emit (Exec (mongodump_command cfg backupDir)) s6
                 in (Some (l3, AwaitDump dbName backupFolderName backupDir), s7))))"

text \<open>
  The piece of the call that runs when the awaited promise settles. The result is the
  next \<open>await\<close>, or the settlement of the promise of \<open>performBackup\<close> itself, together with
  the statements given to the database by \<open>cleanupOldBackups\<close>. A row is in the table
  when its insert has settled. The line that reports the completion is written after the
  log lines were taken for the record; its text ends here before the figures.
\<close>

datatype outcome = Resolved | Rejected string

datatype progress = Suspended attempt | Settled outcome

definition resume ::
  "config \<Rightarrow> library \<Rightarrow> attempt \<Rightarrow> state \<Rightarrow> progress \<times> (query \<times> bool) list \<times> state" where
  "resume cfg lib a s =
     (let l = fst a; w = l_world l; backupType = l_backupType l in
      case snd a of
        AwaitDump dbName backupFolderName backupDir \<Rightarrow>
          (case w_dump w of
             DumpError message \<Rightarrow>
               (let (a', s') = catch_block cfg lib message l s in (Suspended a', [], s'))
           | DumpOk stdout stderr \<Rightarrow>
               (let (l1, s1) = (if stderr \<noteq> [] then backupLogger WARN (''Backup stderr: '' @ stderr) (l, s)
                                else (l, s));
                    (l2, s2) = (if stdout \<noteq> [] then backupLogger INFO (''Backup stdout: '' @ stdout) (l1, s1)
                                else (l1, s1));
                    duration = elapsed_seconds (w_end_ms w) (w_start_ms w);
                    backupSize = w_dir_size w;
                    stats = parseBackupStats stdout;
                    (actualCollections, l3, s3) =
                      (case w_db_dir w of
                         None \<Rightarrow> (0, l2, s2)
                       | Some files \<Rightarrow>
                           (let n = length (filter (\<lambda>file. endsWith file ''.bson'') files);
                                (l', s') = backupLogger INFO
                                             (''Backed up '' @ show_nat n @ '' collections'') (l2, s2)
                            in (n, l', s')));
                    md = \<lparr> md_timestamp = w_timestamp w,
                           md_type = backupType,
                           md_folderName = backupFolderName,
                           md_databaseName = dbName,
                           md_status = Success,
                           md_duration = duration,
                           md_collections = actualCollections,
                           md_documents = documents stats,
                           md_indexes = indexes stats,
                           md_errorMessage = None,
                           md_backupSize = backupSize,
                           md_backupLogs = l_backupLogs l3 \<rparr>
                in (Suspended (l3, AwaitSaveSuccess md), [], s3)))
      | AwaitSaveSuccess md \<Rightarrow>
          (case w_save_error w of
             Some message \<Rightarrow>
               (let (a', s') = catch_block cfg lib message l s in (Suspended a', [], s'))
           | None \<Rightarrow>
               (let s1 = saveBackupMetadata md s;
                    (l1, s2) = backupLogger INFO
                                 (type_name backupType @ '' backup completed successfully'') (l, s1);
                    qs = cleanupOldBackups cfg (w_cleanup_moment w) backupType
                in (Suspended (l1, AwaitCleanup), map (\<lambda>q. (q, w_query_error w)) qs, s2)))
      | AwaitCleanup \<Rightarrow> (Settled Resolved, [], finally_block s)
      | AwaitSaveFailure md \<Rightarrow>
          (case w_fail_save_error w of
             Some message \<Rightarrow> (Settled (Rejected message), [], finally_block s)
           | None \<Rightarrow> (Settled Resolved, [], finally_block (saveBackupMetadata md s))))"

definition awaits_left :: "await_point \<Rightarrow> nat" where
  "awaits_left p = (case p of AwaitDump _ _ _ \<Rightarrow> 3 | AwaitSaveSuccess _ \<Rightarrow> 2
                     | AwaitCleanup \<Rightarrow> 1 | AwaitSaveFailure _ \<Rightarrow> 1)"


text \<open>
  A call from its first \<open>await\<close> to its settlement, when nothing else runs in between.
  Each piece leaves fewer \<open>await\<close>s ahead.
\<close>

lemma catch_block_awaits_left:
  "catch_block cfg lib message l s = (a, s') \<Longrightarrow> awaits_left (snd a) = 1"
  by (auto simp: catch_block_def Let_def awaits_left_def split: prod.splits)

lemma resume_awaits_left:
  "resume cfg lib a s = (Suspended a', qs, s') \<Longrightarrow> awaits_left (snd a') < awaits_left (snd a)"
  by (auto simp: resume_def Let_def awaits_left_def
        split: await_point.splits dump_outcome.splits option.splits prod.splits if_splits
        dest!: catch_block_awaits_left)

function complete ::
  "config \<Rightarrow> library \<Rightarrow> attempt \<Rightarrow> state \<Rightarrow> outcome \<times> (query \<times> bool) list \<times> state" where
  "complete cfg lib a s =
     (case resume cfg lib a s of
        (Settled out, qs, s') \<Rightarrow> (out, qs, s')
      | (Suspended a', qs, s') \<Rightarrow>
          (case complete cfg lib a' s' of (out, qs', s'') \<Rightarrow> (out, qs @ qs', s'')))"
  by pat_completeness auto
termination
  by (relation "measure (\<lambda>(cfg, lib, a, s). awaits_left (snd a))")
     (auto dest: resume_awaits_left [OF sym])

declare complete.simps [simp del]

text \<open>
  \<open>performBackup\<close> run alone from call to settlement, followed by the callbacks of the
  statements that \<open>cleanupOldBackups\<close> issued. \<open>Skipped\<close> marks the return at the guard
  (the promise resolves there as well).
\<close>

datatype run = Skipped | Ran outcome

definition performBackup ::
  "config \<Rightarrow> library \<Rightarrow> attempt_world \<Rightarrow> cadence option \<Rightarrow> state \<Rightarrow> run \<times> state" where
  "performBackup cfg lib w backupType s =
     (case performBackup_call cfg lib w backupType s of
        (None, s1) \<Rightarrow> (Skipped, s1)
      | (Some a, s1) \<Rightarrow>
          (case complete cfg lib a s1 of
             (out, qs, s2) \<Rightarrow> (Ran out, run_callbacks cfg lib qs s2)))"


section \<open>Triggers that overlap\<close>

text \<open>
  The process runs one piece of code at a time, to its next \<open>await\<close>. Between two
  pieces anything may come: a timer that calls \<open>performBackup\<close>, the settlement of a
  promise on which a call waits, the rows of a statement of the retention. The system
  holds the state, the calls that are suspended at an \<open>await\<close>, and the statements whose
  callback has not run.
\<close>

record system =
  sys_state :: state
  inflight :: "attempt list"
  queries :: "(query \<times> bool) list"

datatype event = Trigger "cadence option" attempt_world | Settle nat | Callback nat

definition fire :: "config \<Rightarrow> library \<Rightarrow> event \<Rightarrow> system \<Rightarrow> system option" where
  "fire cfg lib e sys =
     (case e of
        Trigger backupType w \<Rightarrow>
          (case performBackup_call cfg lib w backupType (sys_state sys) of
             (None, s') \<Rightarrow> Some (sys\<lparr>sys_state := s'\<rparr>)
           | (Some a, s') \<Rightarrow> Some (sys\<lparr>sys_state := s', inflight := inflight sys @ [a]\<rparr>))
      | Settle i \<Rightarrow>
          (if i < length (inflight sys)
           then (case resume cfg lib (inflight sys ! i) (sys_state sys) of
                   (Suspended a', qs, s') \<Rightarrow>
                     Some (sys\<lparr>sys_state := s', inflight := (inflight sys)[i := a'],
                               queries := queries sys @ qs\<rparr>)
                 | (Settled out, qs, s') \<Rightarrow>
                     Some (sys\<lparr>sys_state := s',
                               inflight := take i (inflight sys) @ drop (Suc i) (inflight sys),
                               queries := queries sys @ qs\<rparr>))
           else None)
      | Callback j \<Rightarrow>
          (if j < length (queries sys)
           then Some (sys\<lparr>sys_state := query_callback cfg lib (queries sys ! j) (sys_state sys),
                          queries := take j (queries sys) @ drop (Suc j) (queries sys)\<rparr>)
           else None))"

definition start_system :: "backup_row list \<Rightarrow> string set \<Rightarrow> system" where
  "start_system rows ds =
     \<lparr> sys_state = \<lparr>isBackupRunning = False, currentBackupInfo = None, backups = rows,
                     dirs = ds, trace = []\<rparr>,
       inflight = [], queries = [] \<rparr>"

inductive reachable :: "config \<Rightarrow> library \<Rightarrow> system \<Rightarrow> bool" for cfg lib where
  start: "reachable cfg lib (start_system rows ds)"
| step: "reachable cfg lib sys \<Longrightarrow> fire cfg lib e sys = Some sys' \<Longrightarrow> reachable cfg lib sys'"


section \<open>Backfill at start-up\<close>

text \<open>
  The clock of \<open>checkAndCreateMissingBackups\<close>: the formatted starts of the current week,
  month and year; whether the count statement of a type fails; and the world of the
  attempt made for a type.
\<close>

record backfill_world =
  bf_weekStart :: string
  bf_monthStart :: string
  bf_yearStart :: string
  bf_query_error :: "cadence \<Rightarrow> bool"
  bf_attempt :: "cadence \<Rightarrow> attempt_world"

definition count_success_since :: "library \<Rightarrow> cadence \<Rightarrow> string \<Rightarrow> backup_row list \<Rightarrow> nat" where
  "count_success_since lib t start rows =
     length (filter (\<lambda>r. row_type r = t \<and> row_status r = Success \<and>
                      (case (sql_datetime lib (row_timestamp r), sql_datetime lib start) of
                         (Some a, Some b) \<Rightarrow> b \<le> a
                       | _ \<Rightarrow> False)) rows)"

text \<open>
  The result names the types for which \<open>performBackup\<close> was called. \<open>Deferred\<close>: a backup
  was running and the check was put on a timer. \<open>Aborted\<close>: a call of \<open>performBackup\<close>
  rejected, which ends the function.
\<close>

datatype backfill = Deferred | Checked "cadence list" | Aborted "cadence list" string

definition backfill_step ::
  "config \<Rightarrow> library \<Rightarrow> backfill_world \<Rightarrow> cadence \<Rightarrow> int \<Rightarrow> string \<Rightarrow> backfill \<times> state
     \<Rightarrow> backfill \<times> state" where
  "backfill_step cfg lib bw t number start r =
     (case r of
        (Checked called, s) \<Rightarrow>
          if 0 < number then
            (let missing = (\<not> bf_query_error bw t \<and>
                            count_success_since lib t start (backups s) = 0) in
             if missing then
               (case performBackup cfg lib (bf_attempt bw t) (Some t) (emit (Logged INFO) s) of
                  (Ran (Rejected message), s') \<Rightarrow> (Aborted (called @ [t]) message, s')
                | (_, s') \<Rightarrow> (Checked (called @ [t]), s'))
             else (Checked called, s))
          else (Checked called, s)
      | _ \<Rightarrow> r)"

definition checkAndCreateMissingBackups ::
  "config \<Rightarrow> library \<Rightarrow> backfill_world \<Rightarrow> state \<Rightarrow> backfill \<times> state" where
  "checkAndCreateMissingBackups cfg lib bw s =
     (if isBackupRunning s then (Deferred, emit RetryTimer (emit (Logged INFO) s))
      else
        backfill_step cfg lib bw Yearly (NUMBER_OF_YEARLY_BACKUPS cfg) (bf_yearStart bw)
          (backfill_step cfg lib bw Monthly (NUMBER_OF_MONTHLY_BACKUPS cfg) (bf_monthStart bw)
             (backfill_step cfg lib bw Weekly (NUMBER_OF_WEEKLY_BACKUPS cfg) (bf_weekStart bw)
                (Checked [], s))))"

definition called_types :: "backfill \<Rightarrow> cadence list" where
  "called_types b = (case b of Deferred \<Rightarrow> [] | Checked ts \<Rightarrow> ts | Aborted ts _ \<Rightarrow> ts)"


section \<open>What one attempt does to the state\<close>

text \<open>
  Predicates for the proofs: a record waiting for its insert carries zero counts of
  documents and indexes; a list of effects holds no assignment to the run lock; a step is
  quiet when it leaves the lock and the directories alone, adds only rows with zero
  counts and no lock effect; a system is exclusive when at most one call is in flight
  and the lock is set exactly while one is.
\<close>

definition pending_counts_zero :: "attempt \<Rightarrow> bool" where
  "pending_counts_zero a =
     (case snd a of
        AwaitSaveSuccess md \<Rightarrow> md_documents md = 0 \<and> md_indexes md = 0
      | AwaitSaveFailure md \<Rightarrow> md_documents md = 0 \<and> md_indexes md = 0
      | _ \<Rightarrow> True)"

definition counts_zero :: "backup_row \<Rightarrow> bool" where
  "counts_zero r = (documents_count r = 0 \<and> indexes_count r = 0)"

definition no_lock_events :: "effect list \<Rightarrow> bool" where
  "no_lock_events es = (\<forall>b. SetRunning b \<notin> set es)"

definition quiet :: "state \<Rightarrow> state \<Rightarrow> bool" where
  "quiet s s' =
     (isBackupRunning s' = isBackupRunning s \<and> dirs s' = dirs s \<and>
      (\<exists>new. backups s' = backups s @ new \<and> list_all counts_zero new) \<and>
      (\<exists>es. trace s' = trace s @ es \<and> no_lock_events es))"

definition exclusive :: "system \<Rightarrow> bool" where
  "exclusive sys =
     (length (inflight sys) \<le> 1 \<and> list_all pending_counts_zero (inflight sys) \<and>
      (isBackupRunning (sys_state sys) \<longleftrightarrow> inflight sys \<noteq> []))"


section \<open>The schedule in the words of the specification\<close>

text \<open>
  When each of the coarser types is due: the yearly and the monthly one at midnight of
  the first day of the year and of the month, the weekly one at the full hours that are
  multiples of the slot interval \<open>round(24 / (weeklyCount / 7))\<close>.
\<close>

definition yearly_due :: "config \<Rightarrow> moment \<Rightarrow> bool" where
  "yearly_due cfg now =
     (0 < NUMBER_OF_YEARLY_BACKUPS cfg \<and> dayOfYear now = 1 \<and> m_hour now = 0 \<and> m_minute now = 0)"

definition monthly_due :: "config \<Rightarrow> moment \<Rightarrow> bool" where
  "monthly_due cfg now =
     (0 < NUMBER_OF_MONTHLY_BACKUPS cfg \<and> m_date now = 1 \<and> m_hour now = 0 \<and> m_minute now = 0)"

definition slotIntervalHours :: "config \<Rightarrow> int" where
  "slotIntervalHours cfg = Math_round (24 / (of_int (NUMBER_OF_WEEKLY_BACKUPS cfg) / 7))"

definition weekly_due :: "config \<Rightarrow> moment \<Rightarrow> bool" where
  "weekly_due cfg now =
     (0 < NUMBER_OF_WEEKLY_BACKUPS cfg \<and> m_minute now = 0 \<and>
      rem_is_zero (m_hour now) (slotIntervalHours cfg))"




text \<open>
  The type of an attempt and the directory made for it; \<open>cleanupOldBackups\<close> with the
  callbacks of its statements run at once on rows that the database delivers; the
  directory of a row.
\<close>

definition attempt_type :: "config \<Rightarrow> attempt_world \<Rightarrow> cadence option \<Rightarrow> cadence" where
  "attempt_type cfg w backupType =
     (case backupType of None \<Rightarrow> determineBackupType cfg (w_moment w) | Some t \<Rightarrow> t)"

definition attempt_dir :: "config \<Rightarrow> library \<Rightarrow> attempt_world \<Rightarrow> cadence option \<Rightarrow> string" where
  "attempt_dir cfg lib w backupType =
     path_join (BACKUP_PATH cfg) (type_name (attempt_type cfg w backupType))
       (generateBackupFolderName (w_folder_date w)
          (extractDatabaseName lib (MONGO_CONNECTION_STRING cfg)))"

definition retention :: "config \<Rightarrow> library \<Rightarrow> moment \<Rightarrow> cadence \<Rightarrow> state \<Rightarrow> state" where
  "retention cfg lib now t s =
     run_callbacks cfg lib (map (\<lambda>q. (q, False)) (cleanupOldBackups cfg now t)) s"

definition backup_path :: "config \<Rightarrow> cadence \<Rightarrow> backup_row \<Rightarrow> string" where
  "backup_path cfg t b = path_join (BACKUP_PATH cfg) (type_name t) (folder_name b)"




text \<open>
  The backfill in the words of the specification: the start of the current period of a
  type, whether a type is enabled, and whether a successful record of a type exists with
  a time stamp at or after a start. Weeks of the year are counted in blocks of seven days
  from the first of January.
\<close>

definition period_start :: "backfill_world \<Rightarrow> cadence \<Rightarrow> string" where
  "period_start bw t =
     (case t of Weekly \<Rightarrow> bf_weekStart bw | Monthly \<Rightarrow> bf_monthStart bw
      | Yearly \<Rightarrow> bf_yearStart bw | Daily \<Rightarrow> [])"

definition enabled :: "config \<Rightarrow> cadence \<Rightarrow> bool" where
  "enabled cfg t =
     (case t of Weekly \<Rightarrow> 0 < NUMBER_OF_WEEKLY_BACKUPS cfg
      | Monthly \<Rightarrow> 0 < NUMBER_OF_MONTHLY_BACKUPS cfg
      | Yearly \<Rightarrow> 0 < NUMBER_OF_YEARLY_BACKUPS cfg
      | Daily \<Rightarrow> False)"

definition on_or_after :: "library \<Rightarrow> string \<Rightarrow> string \<Rightarrow> bool" where
  "on_or_after lib ts start =
     (case (sql_datetime lib ts, sql_datetime lib start) of
        (Some a, Some b) \<Rightarrow> b \<le> a
      | _ \<Rightarrow> False)"

definition has_success_since :: "library \<Rightarrow> cadence \<Rightarrow> string \<Rightarrow> backup_row list \<Rightarrow> bool" where
  "has_success_since lib t start rows =
     list_ex (\<lambda>r. row_type r = t \<and> row_status r = Success \<and>
                   on_or_after lib (row_timestamp r) start) rows"

definition week_of_year :: "moment \<Rightarrow> nat" where
  "week_of_year m = (dayOfYear m - 1) div 7 + 1"


section \<open>Sample inputs\<close>

definition sample_environment :: environment where
  "sample_environment =
     \<lparr> env_MONGO_CONNECTION_STRING = Some ''mongodb://db.example:27017/shop'',
       env_DAILY_BACKUP_INTERVAL_MINUTES = None,
       env_MAX_DAILY_BACKUPS = Some 3,
       env_NUMBER_OF_WEEKLY_BACKUPS = None,
       env_MAX_AGE_OF_WEEKLY_BACKUPS = Some 4,
       env_NUMBER_OF_MONTHLY_BACKUPS = None,
       env_MAX_AGE_OF_MONTHLY_BACKUPS = None,
       env_NUMBER_OF_YEARLY_BACKUPS = None,
       env_MAX_AGE_OF_YEARLY_BACKUPS = None,
       env_BACKUP_PATH = None,
       env_WEB_UI_PORT = None,
       env_TIMEZONE = None \<rparr>"

definition sample_config :: config where
  "sample_config = load_config sample_environment"

definition new_year_midnight :: moment where
  "new_year_midnight =
     \<lparr>m_year = 2025, m_month = 1, m_date = 1, m_hour = 0, m_minute = 0, m_second = 0\<rparr>"



definition sample_library :: library where
  "sample_library =
     \<lparr> url_pathname = (\<lambda>c. Some ''/shop''),
       sql_date = (\<lambda>t. Some (take 10 t)),
       sql_datetime = (\<lambda>t. Some (take 10 t @ '' '' @ take 8 (drop 11 t))) \<rparr>"

definition idle_state :: state where
  "idle_state =
     \<lparr>isBackupRunning = False, currentBackupInfo = None, backups = [], dirs = {}, trace = []\<rparr>"

definition march_8th :: moment where
  "march_8th = \<lparr>m_year = 2024, m_month = 3, m_date = 8, m_hour = 10, m_minute = 0, m_second = 0\<rparr>"

definition ten_o_clock :: "nat \<Rightarrow> js_date" where
  "ten_o_clock sec =
     \<lparr>getFullYear = 2024, getMonth = 2, getDate = 8, getHours = 10, getMinutes = 0, getSeconds = sec\<rparr>"

definition slow_failing_dump :: attempt_world where
  "slow_failing_dump =
     \<lparr> w_moment = march_8th, w_start_ms = 0, w_timestamp = ''2024-03-08T10:00:00Z'',
       w_folder_date = ten_o_clock 0, w_mkdir_error = None,
       w_dump = DumpError ''Command failed: mongodump'',
       w_end_ms = 0, w_dir_size = 0, w_db_dir = None, w_save_error = None,
       w_cleanup_moment = march_8th, w_query_error = False,
       w_fail_ms = 2000, w_fail_folder_date = ten_o_clock 2, w_fail_save_error = None \<rparr>"

definition failing_dump :: attempt_world where
  "failing_dump = slow_failing_dump\<lparr>w_fail_ms := 400, w_fail_folder_date := ten_o_clock 0\<rparr>"

definition failed_weekly_row :: backup_row where
  "failed_weekly_row =
     \<lparr> row_id = 1, row_timestamp = ''2024-01-07T00:00:00Z'', row_type = Weekly,
       folder_name = ''20240107_000000_shop'', database_name = ''shop'', row_status = Failed,
       duration_seconds = 1, collections_count = 0, documents_count = 0, indexes_count = 0,
       error_message = Some ''Command failed: mongodump'', backup_size_bytes = 0,
       backup_logs = [] \<rparr>"

definition after_trigger :: system where
  "after_trigger =
     (case fire sample_config sample_library (Trigger (Some Daily) failing_dump) (start_system [] {}) of
        Some sys \<Rightarrow> sys
      | None \<Rightarrow> start_system [] {})"



definition dump_output :: string where
  "dump_output =
     ''2024-03-08T10:00:01.120+0000 done dumping shop.users (2 documents)'' @ [CHR 0x0A] @
     ''2024-03-08T10:00:01.310+0000 writing shop.orders to /backups'' @ [CHR 0x0A] @
     ''2024-03-08T10:00:01.560+0000 done dumping shop.orders (5 documents)''"

definition good_dump :: attempt_world where
  "good_dump = failing_dump\<lparr>w_dump := DumpOk dump_output [], w_end_ms := 1600,
                 w_dir_size := 4096, w_db_dir := Some [''users.bson'', ''users.metadata.json'',
                                                       ''orders.bson'', ''orders.metadata.json'']\<rparr>"

definition success_row :: "nat \<Rightarrow> cadence \<Rightarrow> string \<Rightarrow> string \<Rightarrow> backup_row" where
  "success_row i t ts folder =
     \<lparr> row_id = i, row_timestamp = ts, row_type = t, folder_name = folder,
       database_name = ''shop'', row_status = Success, duration_seconds = 2,
       collections_count = 2, documents_count = 0, indexes_count = 0,
       error_message = None, backup_size_bytes = 4096, backup_logs = [] \<rparr>"

definition covered_state :: state where
  "covered_state =
     idle_state\<lparr>backups :=
       [success_row 1 Yearly ''2024-01-01T00:00:07Z'' ''20240101_000007_shop'',
        success_row 2 Monthly ''2024-03-01T00:00:10Z'' ''20240301_000010_shop'',
        success_row 3 Weekly ''2024-03-03T12:00:00Z'' ''20240303_120000_shop'']\<rparr>"

definition march_backfill :: backfill_world where
  "march_backfill =
     \<lparr> bf_weekStart = ''2024-03-03T00:00:00Z'', bf_monthStart = ''2024-03-01T00:00:00Z'',
       bf_yearStart = ''2024-01-01T00:00:00Z'', bf_query_error = (\<lambda>t. False),
       bf_attempt = (\<lambda>t. good_dump) \<rparr>"

definition feb_6th :: moment where
  "feb_6th = \<lparr>m_year = 2024, m_month = 2, m_date = 6, m_hour = 0, m_minute = 0, m_second = 0\<rparr>"











definition week5_row :: backup_row where
  "week5_row = success_row 1 Weekly ''2024-02-02T00:00:00Z'' ''20240202_000000_shop''"

definition week6_early_row :: backup_row where
  "week6_early_row = success_row 2 Weekly ''2024-02-06T00:00:00Z'' ''20240206_000000_shop''"

definition week6_late_row :: backup_row where
  "week6_late_row = success_row 3 Weekly ''2024-02-09T00:00:00Z'' ''20240209_000000_shop''"

definition weekly_state :: state where
  "weekly_state =
     idle_state\<lparr> backups := [week5_row, week6_early_row, week6_late_row],
                 dirs := {''/backups/weekly/20240202_000000_shop'',
                          ''/backups/weekly/20240206_000000_shop'',
                          ''/backups/weekly/20240209_000000_shop''} \<rparr>"

definition zero_age_environment :: environment where
  "zero_age_environment = sample_environment\<lparr>env_MAX_AGE_OF_WEEKLY_BACKUPS := Some 0\<rparr>"


section \<open>Lemmas on the steps of an attempt\<close>

lemma emit_simps [simp]:
  "isBackupRunning (emit e s) = isBackupRunning s"
  "currentBackupInfo (emit e s) = currentBackupInfo s"
  "backups (emit e s) = backups s"
  "dirs (emit e s) = dirs s"
  "trace (emit e s) = trace s @ [e]"
  by (simp_all add: emit_def)

lemma backupLogger_simp [simp]:
  "backupLogger lv msg (l, s) = (l\<lparr>l_backupLogs := l_backupLogs l @ [(lv, msg)]\<rparr>, emit (Logged lv) s)"
  by (simp add: backupLogger_def)

lemma saveBackupMetadata_simps [simp]:
  "backups (saveBackupMetadata md s) = backups s @ [row_of_metadata (next_id (backups s)) md]"
  "trace (saveBackupMetadata md s) = trace s @ [Insert (row_of_metadata (next_id (backups s)) md)]"
  "isBackupRunning (saveBackupMetadata md s) = isBackupRunning s"
  "currentBackupInfo (saveBackupMetadata md s) = currentBackupInfo s"
  "dirs (saveBackupMetadata md s) = dirs s"
  by (simp_all add: saveBackupMetadata_def Let_def)

lemma finally_block_simps [simp]:
  "isBackupRunning (finally_block s) = False"
  "currentBackupInfo (finally_block s) = None"
  "backups (finally_block s) = backups s"
  "dirs (finally_block s) = dirs s"
  "trace (finally_block s) = trace s @ [SetRunning False]"
  by (simp_all add: finally_block_def)

lemma no_lock_events_simps [simp]:
  "no_lock_events []"
  "no_lock_events (e # es) \<longleftrightarrow> (\<forall>b. e \<noteq> SetRunning b) \<and> no_lock_events es"
  "no_lock_events (es @ es') \<longleftrightarrow> no_lock_events es \<and> no_lock_events es'"
  by (auto simp: no_lock_events_def)

text \<open>Retention touches directories and the trace only.\<close>

lemma remove_folders_keeps [simp]:
  "backups (remove_folders cfg t rows s) = backups s"
  "isBackupRunning (remove_folders cfg t rows s) = isBackupRunning s"
  "currentBackupInfo (remove_folders cfg t rows s) = currentBackupInfo s"
  by (induction rows arbitrary: s) (simp_all add: Let_def)

lemma remove_folders_dirs:
  "dirs (remove_folders cfg t rows s)
     = dirs s - (\<lambda>b. path_join (BACKUP_PATH cfg) (type_name t) (folder_name b)) ` set rows"
  by (induction rows arbitrary: s) (auto simp: Let_def)

lemma remove_folders_trace:
  "\<exists>es. trace (remove_folders cfg t rows s) = trace s @ es \<and> no_lock_events es"
proof (induction rows arbitrary: s)
  case Nil
  then show ?case by simp
next
  case (Cons b rows)
  let ?p = "path_join (BACKUP_PATH cfg) (type_name t) (folder_name b)"
  let ?s1 = "if ?p \<in> dirs s
             then emit (Logged INFO) (emit (Rm ?p) (s\<lparr>dirs := dirs s - {?p}\<rparr>)) else s"
  obtain es where es: "trace (remove_folders cfg t rows ?s1) = trace ?s1 @ es" "no_lock_events es"
    using Cons.IH by blast
  have "\<exists>es0. trace ?s1 = trace s @ es0 \<and> no_lock_events es0" by simp
  then obtain es0 where es0: "trace ?s1 = trace s @ es0" "no_lock_events es0" by blast
  have "trace (remove_folders cfg t (b # rows) s) = trace s @ (es0 @ es)"
    using es(1) es0(1) by (simp add: Let_def)
  moreover have "no_lock_events (es0 @ es)" using es(2) es0(2) by simp
  ultimately show ?case by blast
qed

lemma query_callback_keeps [simp]:
  "backups (query_callback cfg lib q s) = backups s"
  "isBackupRunning (query_callback cfg lib q s) = isBackupRunning s"
  "currentBackupInfo (query_callback cfg lib q s) = currentBackupInfo s"
  by (auto simp: query_callback_def Let_def split: prod.splits query.splits)

lemma query_callback_dirs: "dirs (query_callback cfg lib q s) \<subseteq> dirs s"
  by (auto simp: query_callback_def Let_def remove_folders_dirs split: prod.splits query.splits)

lemma query_callback_trace:
  "\<exists>es. trace (query_callback cfg lib q s) = trace s @ es \<and> no_lock_events es"
proof (cases q)
  case (Pair qq err)
  then show ?thesis
    using remove_folders_trace [of cfg]
    by (cases qq) (auto simp: query_callback_def Let_def)
qed

lemma run_callbacks_keeps [simp]:
  "backups (run_callbacks cfg lib qs s) = backups s"
  "isBackupRunning (run_callbacks cfg lib qs s) = isBackupRunning s"
  "currentBackupInfo (run_callbacks cfg lib qs s) = currentBackupInfo s"
  unfolding run_callbacks_def by (induction qs arbitrary: s) simp_all

lemma run_callbacks_dirs: "dirs (run_callbacks cfg lib qs s) \<subseteq> dirs s"
  unfolding run_callbacks_def
proof (induction qs arbitrary: s)
  case Nil
  then show ?case by simp
next
  case (Cons q qs)
  then show ?case using query_callback_dirs [of cfg lib q s] by fastforce
qed

lemma run_callbacks_trace:
  "\<exists>es. trace (run_callbacks cfg lib qs s) = trace s @ es \<and> no_lock_events es"
  unfolding run_callbacks_def
proof (induction qs arbitrary: s)
  case Nil
  then show ?case by simp
next
  case (Cons q qs)
  obtain e1 where e1: "trace (query_callback cfg lib q s) = trace s @ e1" "no_lock_events e1"
    using query_callback_trace by blast
  obtain e2 where e2:
    "trace (fold (query_callback cfg lib) qs (query_callback cfg lib q s))
       = trace (query_callback cfg lib q s) @ e2" "no_lock_events e2"
    using Cons.IH by blast
  have "trace (fold (query_callback cfg lib) (q # qs) s) = trace s @ (e1 @ e2)"
    using e1(1) e2(1) by simp
  moreover have "no_lock_events (e1 @ e2)" using e1(2) e2(2) by simp
  ultimately show ?case by blast
qed

lemma quiet_refl [simp]: "quiet s s"
  by (simp add: quiet_def)

lemma quiet_trans:
  assumes "quiet s s'" and "quiet s' s''"
  shows "quiet s s''"
proof -
  obtain n1 e1 where 1: "backups s' = backups s @ n1" "list_all counts_zero n1"
    "trace s' = trace s @ e1" "no_lock_events e1"
    using assms(1) unfolding quiet_def by blast
  obtain n2 e2 where 2: "backups s'' = backups s' @ n2" "list_all counts_zero n2"
    "trace s'' = trace s' @ e2" "no_lock_events e2"
    using assms(2) unfolding quiet_def by blast
  have "backups s'' = backups s @ (n1 @ n2)" "list_all counts_zero (n1 @ n2)"
    "trace s'' = trace s @ (e1 @ e2)" "no_lock_events (e1 @ e2)"
    using 1 2 by simp_all
  moreover have "isBackupRunning s'' = isBackupRunning s" "dirs s'' = dirs s"
    using assms unfolding quiet_def by simp_all
  ultimately show ?thesis unfolding quiet_def by blast
qed

lemma quiet_emit_step: "(\<And>b. e \<noteq> SetRunning b) \<Longrightarrow> quiet s (emit e s)"
  unfolding quiet_def by simp

lemma quiet_save_step:
  "md_documents md = 0 \<Longrightarrow> md_indexes md = 0 \<Longrightarrow> quiet s (saveBackupMetadata md s)"
  unfolding quiet_def by (simp add: counts_zero_def row_of_metadata_def)

lemma quiet_emit: "(\<And>b. e \<noteq> SetRunning b) \<Longrightarrow> quiet s s' \<Longrightarrow> quiet s (emit e s')"
  using quiet_trans quiet_emit_step by blast

lemma quiet_save:
  "md_documents md = 0 \<Longrightarrow> md_indexes md = 0 \<Longrightarrow> quiet s s' \<Longrightarrow> quiet s (saveBackupMetadata md s')"
  using quiet_trans quiet_save_step by blast

lemma parseBackupStats_fold:
  "documents (fold (\<lambda>line st. if str_includes line p then st\<lparr>collections := collections st + 1\<rparr> else st) ls st0) = documents st0 \<and>
   indexes (fold (\<lambda>line st. if str_includes line p then st\<lparr>collections := collections st + 1\<rparr> else st) ls st0) = indexes st0 \<and>
   collections (fold (\<lambda>line st. if str_includes line p then st\<lparr>collections := collections st + 1\<rparr> else st) ls st0)
     = collections st0 + length (filter (\<lambda>line. str_includes line p) ls)"
  by (induction ls arbitrary: st0) simp_all

lemma parseBackupStats_counts:
  "documents (parseBackupStats out) = 0"
  "indexes (parseBackupStats out) = 0"
  "collections (parseBackupStats out)
     = length (filter (\<lambda>line. str_includes line ''done dumping'') (str_split (CHR 0x0A) out))"
  unfolding parseBackupStats_def by (simp_all add: parseBackupStats_fold)

lemma catch_block_quiet:
  assumes "catch_block cfg lib message l s = (a, s')"
  shows "quiet s s' \<and> pending_counts_zero a \<and> s' = emit (Logged ERROR) s"
  using assms
  by (auto simp: catch_block_def Let_def pending_counts_zero_def intro!: quiet_emit)

lemma resume_suspended:
  assumes "pending_counts_zero a" and "resume cfg lib a s = (Suspended a', qs, s')"
  shows "quiet s s' \<and> pending_counts_zero a'"
proof (cases "snd a")
  case (AwaitDump dbName backupFolderName backupDir)
  then show ?thesis
    using assms(2)
    by (auto simp: resume_def Let_def pending_counts_zero_def parseBackupStats_counts
          split: dump_outcome.splits option.splits prod.splits if_splits
          dest!: catch_block_quiet intro!: quiet_emit)
next
  case (AwaitSaveSuccess md)
  then show ?thesis
    using assms
    by (auto simp: resume_def Let_def pending_counts_zero_def
          split: option.splits prod.splits
          dest!: catch_block_quiet intro!: quiet_emit quiet_save)
next
  case AwaitCleanup
  then show ?thesis using assms(2) by (simp add: resume_def Let_def)
next
  case (AwaitSaveFailure md)
  then show ?thesis using assms(2) by (simp add: resume_def Let_def split: option.splits)
qed

lemma resume_settled:
  assumes "pending_counts_zero a" and "resume cfg lib a s = (Settled out, qs, s')"
  shows "\<exists>mid. quiet s mid \<and> s' = finally_block mid"
proof (cases "snd a")
  case (AwaitDump dbName backupFolderName backupDir)
  then show ?thesis
    using assms(2)
    by (auto simp: resume_def Let_def split: dump_outcome.splits option.splits prod.splits if_splits)
next
  case (AwaitSaveSuccess md)
  then show ?thesis
    using assms(2) by (auto simp: resume_def Let_def split: option.splits prod.splits)
next
  case AwaitCleanup
  then show ?thesis
    using assms(2) by (auto simp: resume_def Let_def intro: exI [where x=s])
next
  case (AwaitSaveFailure md)
  then show ?thesis
    using assms
    by (auto simp: resume_def Let_def pending_counts_zero_def split: option.splits
          intro: exI [where x=s] exI [where x="saveBackupMetadata md s"] quiet_save_step)
qed

lemma complete_settles:
  "pending_counts_zero a \<Longrightarrow> complete cfg lib a s = (out, qs, s') \<Longrightarrow>
     \<exists>mid. quiet s mid \<and> s' = finally_block mid"
proof (induction cfg lib a s arbitrary: out qs s' rule: complete.induct)
  case (1 cfg lib a s)
  obtain p qs0 s0 where r: "resume cfg lib a s = (p, qs0, s0)"
    by (cases "resume cfg lib a s") auto
  show ?case
  proof (cases p)
    case (Settled out0)
    then have "s' = s0"
      using "1.prems"(2) r by (simp add: complete.simps [of cfg lib a s])
    then show ?thesis
      using resume_settled [OF "1.prems"(1)] r Settled by blast
  next
    case (Suspended a')
    obtain out1 qs1 s1 where c: "complete cfg lib a' s0 = (out1, qs1, s1)"
      by (cases "complete cfg lib a' s0") auto
    have q0: "quiet s s0" and z: "pending_counts_zero a'"
      using resume_suspended [OF "1.prems"(1)] r Suspended by blast+
    have "s' = s1"
      using "1.prems"(2) r Suspended c by (simp add: complete.simps [of cfg lib a s])
    moreover obtain mid where "quiet s0 mid" "s1 = finally_block mid"
      using "1.IH" [OF r [symmetric] _ _ z c] Suspended by auto
    ultimately show ?thesis
      using q0 quiet_trans by blast
  qed
qed

lemma performBackup_call_running:
  "isBackupRunning s \<Longrightarrow> performBackup_call cfg lib w bt s = (None, emit (Logged WARN) s)"
  by (simp add: performBackup_call_def)

lemma performBackup_call_starts:
  assumes "\<not> isBackupRunning s"
  shows "\<exists>a s1. performBackup_call cfg lib w bt s = (Some a, s1) \<and> pending_counts_zero a \<and>
           isBackupRunning s1 \<and> backups s1 = backups s \<and> dirs s \<subseteq> dirs s1 \<and>
           (\<exists>es. trace s1 = trace s @ SetRunning True # es \<and> no_lock_events es)"
proof (cases "w_mkdir_error w")
  case None
  then show ?thesis
    using assms
    by (auto simp: performBackup_call_def Let_def pending_counts_zero_def)
next
  case (Some message)
  then show ?thesis
    using assms
    by (auto simp: performBackup_call_def Let_def catch_block_def pending_counts_zero_def)
qed

lemma performBackup_started:
  assumes "\<not> isBackupRunning s"
  shows "\<exists>out s' new es1 es2.
           performBackup cfg lib w bt s = (Ran out, s') \<and>
           \<not> isBackupRunning s' \<and> currentBackupInfo s' = None \<and>
           backups s' = backups s @ new \<and> list_all counts_zero new \<and>
           trace s' = trace s @ SetRunning True # es1 @ SetRunning False # es2 \<and>
           no_lock_events es1 \<and> no_lock_events es2"
proof -
  obtain a s1 es where call: "performBackup_call cfg lib w bt s = (Some a, s1)"
    and a: "pending_counts_zero a" and s1: "backups s1 = backups s"
    "trace s1 = trace s @ SetRunning True # es" "no_lock_events es"
    using performBackup_call_starts [OF assms] by blast
  obtain out qs s2 where c: "complete cfg lib a s1 = (out, qs, s2)"
    by (cases "complete cfg lib a s1") auto
  obtain mid where mid: "quiet s1 mid" "s2 = finally_block mid"
    using complete_settles [OF a c] by blast
  obtain new em where m: "backups mid = backups s1 @ new" "list_all counts_zero new"
    "trace mid = trace s1 @ em" "no_lock_events em"
    using mid(1) unfolding quiet_def by blast
  obtain e2 where e2: "trace (run_callbacks cfg lib qs s2) = trace s2 @ e2" "no_lock_events e2"
    using run_callbacks_trace by blast
  let ?s' = "run_callbacks cfg lib qs s2"
  have "performBackup cfg lib w bt s = (Ran out, ?s')"
    by (simp add: performBackup_def call c)
  moreover have "\<not> isBackupRunning ?s'" "currentBackupInfo ?s' = None"
    using mid(2) by simp_all
  moreover have "backups ?s' = backups s @ new"
    using mid(2) m(1) s1(1) by simp
  moreover have "trace ?s' = trace s @ SetRunning True # (es @ em) @ SetRunning False # e2"
    using e2(1) mid(2) m(3) s1(2) by simp
  moreover have "no_lock_events (es @ em)"
    using s1(3) m(4) by simp
  ultimately show ?thesis
    using m(2) e2(2) by blast
qed

lemma performBackup_skipped:
  "isBackupRunning s \<Longrightarrow> performBackup cfg lib w bt s = (Skipped, emit (Logged WARN) s)"
  by (simp add: performBackup_def performBackup_call_running)

lemma performBackup_appends:
  "\<exists>new. backups (snd (performBackup cfg lib w bt s)) = backups s @ new \<and> list_all counts_zero new"
proof (cases "isBackupRunning s")
  case True
  then show ?thesis by (simp add: performBackup_skipped)
next
  case False
  then show ?thesis using performBackup_started [OF False, of cfg lib w bt] by force
qed

lemma exclusive_start: "exclusive (start_system rows ds)"
  by (simp add: exclusive_def start_system_def)

lemma exclusive_fire:
  assumes "exclusive sys" and "fire cfg lib e sys = Some sys'"
  shows "exclusive sys'"
proof (cases e)
  case (Trigger bt w)
  show ?thesis
  proof (cases "isBackupRunning (sys_state sys)")
    case True
    then show ?thesis
      using assms Trigger by (auto simp: fire_def performBackup_call_running exclusive_def)
  next
    case False
    then obtain a s1 where "performBackup_call cfg lib w bt (sys_state sys) = (Some a, s1)"
      "pending_counts_zero a" "isBackupRunning s1"
      using performBackup_call_starts by blast
    then show ?thesis
      using assms Trigger False by (auto simp: fire_def exclusive_def)
  qed
next
  case (Settle i)
  then have i: "i < length (inflight sys)"
    using assms(2) by (auto simp: fire_def split: if_splits)
  then obtain a where a: "inflight sys = [a]" "i = 0"
    using assms(1) by (cases "inflight sys") (auto simp: exclusive_def)
  then have z: "pending_counts_zero a" and run: "isBackupRunning (sys_state sys)"
    using assms(1) by (auto simp: exclusive_def)
  obtain p qs s1 where r: "resume cfg lib a (sys_state sys) = (p, qs, s1)"
    by (cases "resume cfg lib a (sys_state sys)") auto
  show ?thesis
  proof (cases p)
    case (Suspended a')
    then have "quiet (sys_state sys) s1" "pending_counts_zero a'"
      using resume_suspended [OF z] r by blast+
    then show ?thesis
      using assms(2) Settle a r Suspended run
      by (auto simp: fire_def exclusive_def quiet_def)
  next
    case (Settled out)
    then obtain mid where "s1 = finally_block mid"
      using resume_settled [OF z] r by blast
    then show ?thesis
      using assms(2) Settle a r Settled
      by (auto simp: fire_def exclusive_def)
  qed
next
  case (Callback j)
  then show ?thesis
    using assms by (auto simp: fire_def exclusive_def split: if_splits)
qed

lemma reachable_exclusive: "reachable cfg lib sys \<Longrightarrow> exclusive sys"
  by (induction rule: reachable.induct) (auto intro: exclusive_start exclusive_fire)




lemma sample_config_simps:
  "MONGO_CONNECTION_STRING sample_config = Some ''mongodb://db.example:27017/shop''"
  "MAX_DAILY_BACKUPS sample_config = 3"
  "NUMBER_OF_WEEKLY_BACKUPS sample_config = 7"
  "MAX_AGE_OF_WEEKLY_BACKUPS sample_config = 4"
  "NUMBER_OF_MONTHLY_BACKUPS sample_config = 12"
  "MAX_AGE_OF_MONTHLY_BACKUPS sample_config = 12"
  "NUMBER_OF_YEARLY_BACKUPS sample_config = 5"
  "MAX_AGE_OF_YEARLY_BACKUPS sample_config = 5"
  "BACKUP_PATH sample_config = ''/backups''"
  by (simp_all add: sample_config_def sample_environment_def load_config_def or_default_def
        or_default_str_def)

text \<open>The rounded slot interval in integers: \<open>168 / N\<close> rounded, halves upwards.\<close>

lemma Math_round_slot:
  assumes "0 < N"
  shows "Math_round (24 / (of_int N / 7)) = (336 + N) div (2 * N)"
proof -
  have "(24::rat) / (of_int N / 7) + 1 / 2 = of_int (336 + N) / of_int (2 * N)"
    using assms by (simp add: field_simps)
  then show ?thesis
    unfolding Math_round_def by (simp only: floor_divide_of_int_eq)
qed

lemma slotIntervalHours_eq:
  "0 < NUMBER_OF_WEEKLY_BACKUPS cfg \<Longrightarrow>
     slotIntervalHours cfg
       = (336 + NUMBER_OF_WEEKLY_BACKUPS cfg) div (2 * NUMBER_OF_WEEKLY_BACKUPS cfg)"
  by (simp only: slotIntervalHours_def Math_round_slot)

lemma slotIntervalHours_examples:
  "slotIntervalHours (cfg\<lparr>NUMBER_OF_WEEKLY_BACKUPS := 7\<rparr>) = 24"
  "slotIntervalHours (cfg\<lparr>NUMBER_OF_WEEKLY_BACKUPS := 14\<rparr>) = 12"
  "slotIntervalHours (cfg\<lparr>NUMBER_OF_WEEKLY_BACKUPS := 16\<rparr>) = 11"
  "slotIntervalHours (cfg\<lparr>NUMBER_OF_WEEKLY_BACKUPS := 400\<rparr>) = 0"
  by (simp_all add: slotIntervalHours_eq)

lemma dayOfYear_january: "m_month now = 1 \<Longrightarrow> dayOfYear now = m_date now"
  by (simp add: dayOfYear_def)


lemma complete_settled:
  "resume cfg lib a s = (Settled out, qs, s') \<Longrightarrow> complete cfg lib a s = (out, qs, s')"
  by (simp add: complete.simps [of cfg lib a s])

lemma complete_suspended:
  "resume cfg lib a s = (Suspended a', qs, s') \<Longrightarrow> complete cfg lib a' s' = (out, qs', s'') \<Longrightarrow>
     complete cfg lib a s = (out, qs @ qs', s'')"
  by (simp add: complete.simps [of cfg lib a s])

lemma performBackup_dump_failure:
  assumes idle: "\<not> isBackupRunning s"
    and mkdir: "w_mkdir_error w = None"
    and dump: "w_dump w = DumpError message"
    and save: "w_fail_save_error w = None"
  shows "\<exists>row. performBackup cfg lib w bt s =
           (Ran Resolved,
            s\<lparr> isBackupRunning := False, currentBackupInfo := None,
               backups := backups s @ [row],
               dirs := insert (attempt_dir cfg lib w bt) (dirs s),
               trace := trace s @
                 [SetRunning True, Logged INFO, Mkdir (attempt_dir cfg lib w bt), Logged INFO,
                  Logged INFO, Exec (mongodump_command cfg (attempt_dir cfg lib w bt)),
                  Logged ERROR, Insert row, SetRunning False] \<rparr>) \<and>
         row_id row = next_id (backups s) \<and>
         row_type row = attempt_type cfg w bt \<and>
         row_timestamp row = w_timestamp w \<and>
         row_status row = Failed \<and>
         error_message row = Some message \<and>
         backup_size_bytes row = 0 \<and>
         collections_count row = 0 \<and> documents_count row = 0 \<and> indexes_count row = 0 \<and>
         folder_name row = generateBackupFolderName (w_fail_folder_date w)
                             (extractDatabaseName lib (MONGO_CONNECTION_STRING cfg))"
proof -
  let ?dir = "attempt_dir cfg lib w bt"
  let ?s1 = "s\<lparr> isBackupRunning := True,
                 currentBackupInfo := Some \<lparr>info_type = attempt_type cfg w bt,
                   info_folderName = generateBackupFolderName (w_folder_date w)
                     (extractDatabaseName lib (MONGO_CONNECTION_STRING cfg)),
                   info_startTime = w_timestamp w\<rparr>,
                 dirs := insert ?dir (dirs s),
                 trace := trace s @ [SetRunning True, Logged INFO, Mkdir ?dir, Logged INFO,
                                     Logged INFO, Exec (mongodump_command cfg ?dir)] \<rparr>"
  obtain l db f where call:
    "performBackup_call cfg lib w bt s = (Some (l, AwaitDump db f ?dir), ?s1)"
    and l: "l_world l = w" "l_backupType l = attempt_type cfg w bt"
    using idle mkdir
    by (simp add: performBackup_call_def Let_def emit_def attempt_dir_def attempt_type_def)
  obtain a2 s2 where cb: "catch_block cfg lib message l ?s1 = (a2, s2)"
    by (cases "catch_block cfg lib message l ?s1") auto
  then obtain l2 md where a2: "a2 = (l2, AwaitSaveFailure md)" "l_world l2 = w"
    and md: "md_type md = attempt_type cfg w bt" "md_timestamp md = w_timestamp w"
      "md_status md = Failed" "md_errorMessage md = Some message" "md_backupSize md = 0"
      "md_collections md = 0" "md_documents md = 0" "md_indexes md = 0"
      "md_folderName md = generateBackupFolderName (w_fail_folder_date w)
                             (extractDatabaseName lib (MONGO_CONNECTION_STRING cfg))"
    and s2: "s2 = emit (Logged ERROR) ?s1"
    using l by (auto simp: catch_block_def Let_def)
  have r1: "resume cfg lib (l, AwaitDump db f ?dir) ?s1 = (Suspended a2, [], s2)"
    using dump l cb by (simp add: resume_def Let_def)
  have r2: "resume cfg lib a2 s2 = (Settled Resolved, [], finally_block (saveBackupMetadata md s2))"
    using save a2 by (simp add: resume_def Let_def)
  have c: "complete cfg lib (l, AwaitDump db f ?dir) ?s1
             = (Resolved, [], finally_block (saveBackupMetadata md s2))"
    using complete_suspended [OF r1 complete_settled [OF r2]] by simp
  let ?row = "row_of_metadata (next_id (backups s)) md"
  have "performBackup cfg lib w bt s =
          (Ran Resolved, finally_block (saveBackupMetadata md s2))"
    by (simp add: performBackup_def call c run_callbacks_def)
  moreover have "finally_block (saveBackupMetadata md s2) =
            s\<lparr> isBackupRunning := False, currentBackupInfo := None,
               backups := backups s @ [?row],
               dirs := insert ?dir (dirs s),
               trace := trace s @
                 [SetRunning True, Logged INFO, Mkdir ?dir, Logged INFO,
                  Logged INFO, Exec (mongodump_command cfg ?dir),
                  Logged ERROR, Insert ?row, SetRunning False] \<rparr>"
    by (simp add: s2 finally_block_def saveBackupMetadata_def emit_def Let_def)
  ultimately show ?thesis
    using md by (intro exI [where x="?row"]) (simp add: row_of_metadata_def)
qed

lemma sample_names:
  "extractDatabaseName sample_library (MONGO_CONNECTION_STRING sample_config) = ''shop''"
  "extractDatabaseName sample_library (Some ''mongodb://db.example:27017/shop'') = ''shop''"
  "generateBackupFolderName (ten_o_clock 0) ''shop'' = ''20240308_100000_shop''"
  "generateBackupFolderName (ten_o_clock 2) ''shop'' = ''20240308_100002_shop''"
  by (simp_all add: extractDatabaseName_def sample_library_def sample_config_simps
        generateBackupFolderName_def ten_o_clock_def show_nat.simps digit_char_def padStart_def)

lemma sample_attempt_dir:
  "attempt_dir sample_config sample_library failing_dump (Some Daily)
     = ''/backups/daily/20240308_100000_shop''"
  "attempt_dir sample_config sample_library slow_failing_dump (Some Daily)
     = ''/backups/daily/20240308_100000_shop''"
  by (simp_all add: attempt_dir_def attempt_type_def sample_names sample_config_simps
        failing_dump_def slow_failing_dump_def path_join_def type_name_def)

lemma set_insert_desc: "set (insert_desc r rows) = insert r (set rows)"
  by (induction rows) auto

lemma set_order_by_timestamp_desc: "set (order_by_timestamp_desc rows) = set rows"
proof -
  have "set (foldr insert_desc xs []) = set xs" for xs
    by (induction xs) (simp_all add: set_insert_desc)
  then show ?thesis by (simp add: order_by_timestamp_desc_def)
qed

lemma after_trigger_fired:
  "fire sample_config sample_library (Trigger (Some Daily) failing_dump) (start_system [] {})
     = Some after_trigger"
  "isBackupRunning (sys_state after_trigger)"
proof -
  have "\<not> isBackupRunning (sys_state (start_system [] {}))"
    by (simp add: start_system_def)
  then obtain a s1 where
    "performBackup_call sample_config sample_library failing_dump (Some Daily)
       (sys_state (start_system [] {})) = (Some a, s1)" "isBackupRunning s1"
    using performBackup_call_starts by blast
  then show
    "fire sample_config sample_library (Trigger (Some Daily) failing_dump) (start_system [] {})
       = Some after_trigger"
    "isBackupRunning (sys_state after_trigger)"
    by (simp_all add: after_trigger_def fire_def)
qed

lemma failing_dump_simps:
  "w_mkdir_error failing_dump = None"
  "w_dump failing_dump = DumpError ''Command failed: mongodump''"
  "w_fail_save_error failing_dump = None"
  "w_mkdir_error slow_failing_dump = None"
  "w_dump slow_failing_dump = DumpError ''Command failed: mongodump''"
  "w_fail_save_error slow_failing_dump = None"
  "w_folder_date slow_failing_dump = ten_o_clock 0"
  "w_fail_folder_date slow_failing_dump = ten_o_clock 2"
  by (simp_all add: failing_dump_def slow_failing_dump_def)

lemma idle_state_simps:
  "\<not> isBackupRunning idle_state" "backups idle_state = []" "dirs idle_state = {}"
  "trace idle_state = []"
  by (simp_all add: idle_state_def)

lemma performBackup_success:
  assumes idle: "\<not> isBackupRunning s"
    and mkdir: "w_mkdir_error w = None"
    and dump: "w_dump w = DumpOk out err"
    and save: "w_save_error w = None"
  shows "\<exists>row mid.
           performBackup cfg lib w bt s =
             (Ran Resolved,
              run_callbacks cfg lib
                (map (\<lambda>q. (q, w_query_error w))
                   (cleanupOldBackups cfg (w_cleanup_moment w) (attempt_type cfg w bt))) mid) \<and>
           \<not> isBackupRunning mid \<and> currentBackupInfo mid = None \<and>
           backups mid = backups s @ [row] \<and>
           dirs mid = insert (attempt_dir cfg lib w bt) (dirs s) \<and>
           row_id row = next_id (backups s) \<and>
           row_type row = attempt_type cfg w bt \<and>
           row_timestamp row = w_timestamp w \<and>
           row_status row = Success \<and>
           error_message row = None \<and>
           backup_size_bytes row = w_dir_size w \<and>
           duration_seconds row = elapsed_seconds (w_end_ms w) (w_start_ms w) \<and>
           collections_count row =
             (case w_db_dir w of None \<Rightarrow> 0
              | Some files \<Rightarrow> length (filter (\<lambda>file. endsWith file ''.bson'') files)) \<and>
           documents_count row = 0 \<and> indexes_count row = 0 \<and>
           path_join (BACKUP_PATH cfg) (type_name (row_type row)) (folder_name row)
             = attempt_dir cfg lib w bt"
proof -
  let ?t = "attempt_type cfg w bt"
  let ?dir = "attempt_dir cfg lib w bt"
  let ?f = "generateBackupFolderName (w_folder_date w)
              (extractDatabaseName lib (MONGO_CONNECTION_STRING cfg))"
  obtain l s1 where call:
    "performBackup_call cfg lib w bt s = (Some (l, AwaitDump (extractDatabaseName lib (MONGO_CONNECTION_STRING cfg)) ?f ?dir), s1)"
    and l: "l_world l = w" "l_backupType l = ?t"
    and s1: "isBackupRunning s1" "backups s1 = backups s" "dirs s1 = insert ?dir (dirs s)"
    using idle mkdir
    by (simp add: performBackup_call_def Let_def attempt_dir_def attempt_type_def)
  obtain p1 q1 s2 where r1:
    "resume cfg lib (l, AwaitDump (extractDatabaseName lib (MONGO_CONNECTION_STRING cfg)) ?f ?dir) s1
       = (p1, q1, s2)"
    by (cases "resume cfg lib (l, AwaitDump (extractDatabaseName lib (MONGO_CONNECTION_STRING cfg)) ?f ?dir) s1") auto
  then obtain l2 md where p1: "p1 = Suspended (l2, AwaitSaveSuccess md)" "q1 = []"
    and l2: "l_world l2 = w" "l_backupType l2 = ?t"
    and s2: "backups s2 = backups s" "dirs s2 = insert ?dir (dirs s)"
    and md: "md_type md = ?t" "md_timestamp md = w_timestamp w" "md_status md = Success"
      "md_errorMessage md = None" "md_backupSize md = w_dir_size w"
      "md_duration md = elapsed_seconds (w_end_ms w) (w_start_ms w)"
      "md_collections md = (case w_db_dir w of None \<Rightarrow> 0
              | Some files \<Rightarrow> length (filter (\<lambda>file. endsWith file ''.bson'') files))"
      "md_documents md = 0" "md_indexes md = 0" "md_folderName md = ?f"
    using dump l s1
    by (auto simp: resume_def Let_def parseBackupStats_counts split: option.splits if_splits)
  let ?qs = "map (\<lambda>q. (q, w_query_error w)) (cleanupOldBackups cfg (w_cleanup_moment w) ?t)"
  let ?s3 = "emit (Logged INFO) (saveBackupMetadata md s2)"
  obtain l3 where r2: "resume cfg lib (l2, AwaitSaveSuccess md) s2 = (Suspended (l3, AwaitCleanup), ?qs, ?s3)"
    using save l2 by (simp add: resume_def Let_def)
  have r3: "resume cfg lib (l3, AwaitCleanup) ?s3 = (Settled Resolved, [], finally_block ?s3)"
    by (simp add: resume_def Let_def)
  have "complete cfg lib (l2, AwaitSaveSuccess md) s2 = (Resolved, ?qs @ [], finally_block ?s3)"
    using complete_suspended [OF r2 complete_settled [OF r3]] .
  then have c: "complete cfg lib (l, AwaitDump (extractDatabaseName lib (MONGO_CONNECTION_STRING cfg)) ?f ?dir) s1
                  = (Resolved, ?qs, finally_block ?s3)"
    using complete_suspended [OF r1 [unfolded p1]] by simp
  let ?row = "row_of_metadata (next_id (backups s)) md"
  have "performBackup cfg lib w bt s = (Ran Resolved, run_callbacks cfg lib ?qs (finally_block ?s3))"
    by (simp add: performBackup_def call c)
  moreover have "backups (finally_block ?s3) = backups s @ [?row]"
    "dirs (finally_block ?s3) = insert ?dir (dirs s)"
    using s2 by simp_all
  moreover have "path_join (BACKUP_PATH cfg) (type_name (row_type ?row)) (folder_name ?row) = ?dir"
    using md by (simp add: row_of_metadata_def attempt_dir_def)
  ultimately show ?thesis
    using md
    by (intro exI [where x="?row"] exI [where x="finally_block ?s3"])
       (simp add: row_of_metadata_def)
qed



lemma dump_output_collections: "collections (parseBackupStats dump_output) = 2"
  by (simp add: parseBackupStats_counts dump_output_def startsWith_def)

lemma good_dump_simps:
  "w_mkdir_error good_dump = None" "w_dump good_dump = DumpOk dump_output []"
  "w_save_error good_dump = None"
  by (simp_all add: good_dump_def failing_dump_def slow_failing_dump_def)

lemma count_success_since_zero:
  "count_success_since lib t start rows = 0 \<longleftrightarrow> \<not> has_success_since lib t start rows"
  by (auto simp: count_success_since_def has_success_since_def on_or_after_def list_ex_iff
        filter_empty_conv)

lemma has_success_since_append:
  "has_success_since lib t start rows \<Longrightarrow> has_success_since lib t start (rows @ new)"
  by (auto simp: has_success_since_def list_ex_iff)

lemma backfill_step_facts:
  assumes "backfill_step cfg lib bw t' n start (b, s0) = (b', s1)"
  shows "(\<exists>new. backups s1 = backups s0 @ new) \<and>
         set (called_types b') \<subseteq> insert t' (set (called_types b)) \<and>
         (has_success_since lib t' start (backups s0) \<longrightarrow> b' = b \<and> s1 = s0) \<and>
         (\<not> 0 < n \<longrightarrow> b' = b \<and> s1 = s0)"
proof (cases b)
  case Deferred
  then show ?thesis using assms by (auto simp: backfill_step_def)
next
  case (Aborted ts m)
  then show ?thesis using assms by (auto simp: backfill_step_def)
next
  case (Checked called)
  show ?thesis
  proof (cases "0 < n \<and> \<not> bf_query_error bw t' \<and> count_success_since lib t' start (backups s0) = 0")
    case False
    then have "b' = b \<and> s1 = s0"
      using assms Checked by (auto simp: backfill_step_def Let_def split: if_splits)
    then show ?thesis by auto
  next
    case True
    obtain r s' where p: "performBackup cfg lib (bf_attempt bw t') (Some t') (emit (Logged INFO) s0) = (r, s')"
      by (cases "performBackup cfg lib (bf_attempt bw t') (Some t') (emit (Logged INFO) s0)") auto
    obtain new where new: "backups s' = backups s0 @ new"
      using performBackup_appends [of cfg lib "bf_attempt bw t'" "Some t'" "emit (Logged INFO) s0"] p
      by auto
    have "s1 = s'" "called_types b' = called @ [t']"
      using assms Checked True p
      by (auto simp: backfill_step_def Let_def called_types_def split: run.splits outcome.splits)
    then show ?thesis
      using new True Checked by (auto simp: count_success_since_zero called_types_def)
  qed
qed

lemma covered_state_has_success:
  "has_success_since sample_library Weekly (period_start march_backfill Weekly) (backups covered_state)"
  "has_success_since sample_library Monthly (period_start march_backfill Monthly) (backups covered_state)"
  "has_success_since sample_library Yearly (period_start march_backfill Yearly) (backups covered_state)"
  by (simp_all add: has_success_since_def on_or_after_def period_start_def march_backfill_def
        covered_state_def idle_state_def success_row_def sample_library_def)





lemma cleanupOldBackups_daily:
  "0 < MAX_DAILY_BACKUPS cfg \<Longrightarrow> cleanupOldBackups cfg now Daily = [DailyQuery (format_date now)]"
  "\<not> 0 < MAX_DAILY_BACKUPS cfg \<Longrightarrow> cleanupOldBackups cfg now Daily = []"
  by (simp_all add: cleanupOldBackups_def ageConfigs_def)

lemma cleanupOldBackups_aged:
  assumes "(t, maxAge, unit) \<in> set (ageConfigs cfg)"
  shows "0 < maxAge \<Longrightarrow>
           cleanupOldBackups cfg now t
             = [AgeQuery t (format_date (moment_subtract (nat maxAge) unit now))]"
    and "\<not> 0 < maxAge \<Longrightarrow> cleanupOldBackups cfg now t = []"
  using assms by (auto simp: cleanupOldBackups_def ageConfigs_def)


lemma retention_aged_dirs:
  assumes "(t, maxAge, unit) \<in> set (ageConfigs cfg)" and "0 < maxAge"
  shows "dirs (retention cfg lib now t s)
           = dirs s - backup_path cfg t `
               set (select_older lib t (format_date (moment_subtract (nat maxAge) unit now)) (backups s))"
  using assms
  by (simp add: retention_def cleanupOldBackups_aged run_callbacks_def query_callback_def
        remove_folders_dirs backup_path_def [abs_def])

lemma retention_backups [simp]: "backups (retention cfg lib now t s) = backups s"
  by (simp add: retention_def)

lemma march_8th_dates:
  "format_date march_8th = ''2024-03-08''"
  "format_date (moment_subtract 4 Weeks march_8th) = ''2024-02-09''"
  "format_date feb_6th = ''2024-02-06''"
  "week_of_year march_8th = 10"
  "week_of_year feb_6th = 6"
  by code_simp+

lemma sample_paths:
  "backup_path sample_config Daily (success_row i t ts f) = ''/backups/daily/'' @ f"
  "backup_path sample_config Weekly (success_row i t ts f) = ''/backups/weekly/'' @ f"
  by (simp_all add: backup_path_def path_join_def sample_config_simps type_name_def success_row_def)


lemma select_older_weekly:
  "select_older sample_library Weekly ''2024-02-09'' (backups weekly_state)
     = [week5_row, week6_early_row]"
  by (simp add: select_older_def weekly_state_def idle_state_def week5_row_def
        week6_early_row_def week6_late_row_def success_row_def sample_library_def)

lemma weekly_retention_example:
  "dirs (retention sample_config sample_library march_8th Weekly weekly_state)
     = {''/backups/weekly/20240209_000000_shop''}"
proof -
  have "(Weekly, 4, Weeks) \<in> set (ageConfigs sample_config)"
    by (simp add: ageConfigs_def sample_config_simps)
  from retention_aged_dirs [OF this, of sample_library march_8th weekly_state]
  show ?thesis
    by (simp add: march_8th_dates select_older_weekly week5_row_def week6_early_row_def sample_paths)
       (simp add: weekly_state_def idle_state_def insert_Diff_if)
qed


section \<open>The claims\<close>

text \<open>
  C2. \<open>determineBackupType\<close> gives every instant one type, the coarsest that is due:
  yearly before monthly before weekly before daily. At midnight of the first of January
  with all types enabled the type is yearly. Below the yearly and the monthly type, the
  weekly one is returned exactly when the minute is \<open>0\<close> and the hour leaves no
  remainder by the rounded slot interval (a slot interval of zero leaves \<open>NaN\<close>, so no
  hour is a slot then).
\<close>

theorem determineBackupType_precedence:
  "(determineBackupType cfg now = Yearly \<longleftrightarrow> yearly_due cfg now) \<and>
   (determineBackupType cfg now = Monthly \<longleftrightarrow> \<not> yearly_due cfg now \<and> monthly_due cfg now) \<and>
   (determineBackupType cfg now = Weekly \<longleftrightarrow>
      \<not> yearly_due cfg now \<and> \<not> monthly_due cfg now \<and> weekly_due cfg now) \<and>
   (determineBackupType cfg now = Daily \<longleftrightarrow>
      \<not> yearly_due cfg now \<and> \<not> monthly_due cfg now \<and> \<not> weekly_due cfg now) \<and>
   (0 < NUMBER_OF_YEARLY_BACKUPS cfg \<and> 0 < NUMBER_OF_MONTHLY_BACKUPS cfg \<and>
    0 < NUMBER_OF_WEEKLY_BACKUPS cfg \<and>
    m_month now = 1 \<and> m_date now = 1 \<and> m_hour now = 0 \<and> m_minute now = 0
      \<longrightarrow> determineBackupType cfg now = Yearly)"
  by (auto simp: determineBackupType_def yearly_due_def monthly_due_def weekly_due_def
        slotIntervalHours_def Let_def dayOfYear_january)

theorem determineBackupType_precedence_witness:
  "0 < NUMBER_OF_YEARLY_BACKUPS sample_config \<and> 0 < NUMBER_OF_MONTHLY_BACKUPS sample_config \<and>
   0 < NUMBER_OF_WEEKLY_BACKUPS sample_config \<and>
   m_month new_year_midnight = 1 \<and> m_date new_year_midnight = 1 \<and>
   m_hour new_year_midnight = 0 \<and> m_minute new_year_midnight = 0 \<and>
   yearly_due sample_config new_year_midnight \<and> monthly_due sample_config new_year_midnight \<and>
   weekly_due sample_config new_year_midnight \<and>
   determineBackupType sample_config new_year_midnight = Yearly \<and>
   determineBackupType sample_config new_year_midnight \<noteq> Monthly \<and>
   determineBackupType sample_config new_year_midnight \<noteq> Weekly \<and>
   determineBackupType sample_config new_year_midnight \<noteq> Daily"
  using determineBackupType_precedence [of sample_config new_year_midnight]
  by (simp add: sample_config_simps new_year_midnight_def yearly_due_def monthly_due_def
        weekly_due_def slotIntervalHours_eq rem_is_zero_def dayOfYear_def)

text \<open>
  C6, as the claim has it, fails: a setting of \<open>-5\<close> for \<open>MAX_DAILY_BACKUPS\<close> passes the
  checks of the start-up.
\<close>

theorem max_daily_negative_accepted_counterexample:
  "validate_environment (sample_environment\<lparr>env_MAX_DAILY_BACKUPS := Some (- 5)\<rparr>)
     = Proceed (load_config (sample_environment\<lparr>env_MAX_DAILY_BACKUPS := Some (- 5)\<rparr>))"
  by (simp add: validate_environment_def sample_environment_def load_config_def Let_def
        or_default_def)

text \<open>
  C6, amended. With a connection string given, every negative \<open>MAX_DAILY_BACKUPS\<close>, \<open>-1\<close>
  or another, passes the checks of the start-up, is the setting in force, and switches
  the count-based retention of daily backups off.
\<close>

theorem max_daily_validation:
  assumes "env_MONGO_CONNECTION_STRING env = Some c" and "c \<noteq> []"
    and "env_MAX_DAILY_BACKUPS env = Some n" and "n < 0"
  shows "validate_environment env = Proceed (load_config env) \<and>
         MAX_DAILY_BACKUPS (load_config env) = n \<and>
         cleanupOldBackups (load_config env) now Daily = []"
  using assms
  by (simp add: validate_environment_def load_config_def Let_def or_default_def
        cleanupOldBackups_def ageConfigs_def)

theorem max_daily_validation_witness:
  "env_MONGO_CONNECTION_STRING (sample_environment\<lparr>env_MAX_DAILY_BACKUPS := Some (- 5)\<rparr>)
     = Some ''mongodb://db.example:27017/shop'' \<and>
   ''mongodb://db.example:27017/shop'' \<noteq> [] \<and>
   env_MAX_DAILY_BACKUPS (sample_environment\<lparr>env_MAX_DAILY_BACKUPS := Some (- 5)\<rparr>) = Some (- 5) \<and>
   (- 5 :: int) < 0 \<and>
   validate_environment (sample_environment\<lparr>env_MAX_DAILY_BACKUPS := Some (- 5)\<rparr>)
     = Proceed (load_config (sample_environment\<lparr>env_MAX_DAILY_BACKUPS := Some (- 5)\<rparr>)) \<and>
   MAX_DAILY_BACKUPS (load_config (sample_environment\<lparr>env_MAX_DAILY_BACKUPS := Some (- 5)\<rparr>)) = - 5 \<and>
   cleanupOldBackups (load_config (sample_environment\<lparr>env_MAX_DAILY_BACKUPS := Some (- 5)\<rparr>))
     new_year_midnight Daily = []"
  using max_daily_validation [of "sample_environment\<lparr>env_MAX_DAILY_BACKUPS := Some (- 5)\<rparr>"
      "''mongodb://db.example:27017/shop''" "- 5" new_year_midnight]
  by (simp add: sample_environment_def)

text \<open>
  A setting of \<open>0\<close> never reaches the check against \<open>0\<close>: the default \<open>-1\<close> has taken its
  place before.
\<close>

lemma max_daily_zero_reads_as_unlimited:
  "MAX_DAILY_BACKUPS (load_config (sample_environment\<lparr>env_MAX_DAILY_BACKUPS := Some 0\<rparr>)) = - 1"
  "validate_environment (sample_environment\<lparr>env_MAX_DAILY_BACKUPS := Some 0\<rparr>)
     = Proceed (load_config (sample_environment\<lparr>env_MAX_DAILY_BACKUPS := Some 0\<rparr>))"
  by (simp_all add: validate_environment_def sample_environment_def load_config_def Let_def
        or_default_def)

text \<open>
  C1. Whatever triggers, settlements and callbacks come in whatever order, at most one
  call of \<open>performBackup\<close> is in flight, and the lock is set exactly while one is. A call
  made while the lock is set ends at the guard: the state keeps its rows, its
  directories and its lock, nothing is put in flight or in a queue, the promise
  resolves, and a warning is the only effect. A call made while the lock is free sets the
  lock as its first effect and clears it once, on every way out, whatever the outside
  world answers; retention callbacks that come later leave the lock alone.
\<close>

theorem mutual_exclusion:
  "(reachable cfg lib sys \<longrightarrow>
      length (inflight sys) \<le> 1 \<and> (isBackupRunning (sys_state sys) \<longleftrightarrow> inflight sys \<noteq> [])) \<and>
   (isBackupRunning (sys_state sys) \<longrightarrow>
      fire cfg lib (Trigger bt w) sys
        = Some (sys\<lparr>sys_state := (sys_state sys)\<lparr>trace := trace (sys_state sys) @ [Logged WARN]\<rparr>\<rparr>)) \<and>
   (isBackupRunning s \<longrightarrow>
      performBackup cfg lib w bt s = (Skipped, s\<lparr>trace := trace s @ [Logged WARN]\<rparr>)) \<and>
   (\<not> isBackupRunning s \<longrightarrow>
      (\<exists>out s' es1 es2.
         performBackup cfg lib w bt s = (Ran out, s') \<and> \<not> isBackupRunning s' \<and>
         trace s' = trace s @ SetRunning True # es1 @ SetRunning False # es2 \<and>
         no_lock_events es1 \<and> no_lock_events es2))"
proof (intro conjI impI)
  assume "reachable cfg lib sys"
  then have "exclusive sys" by (rule reachable_exclusive)
  then show "length (inflight sys) \<le> 1" "isBackupRunning (sys_state sys) \<longleftrightarrow> inflight sys \<noteq> []"
    by (simp_all add: exclusive_def)
next
  assume "isBackupRunning (sys_state sys)"
  then show "fire cfg lib (Trigger bt w) sys
        = Some (sys\<lparr>sys_state := (sys_state sys)\<lparr>trace := trace (sys_state sys) @ [Logged WARN]\<rparr>\<rparr>)"
    by (simp add: fire_def performBackup_call_running emit_def)
next
  assume "isBackupRunning s"
  then show "performBackup cfg lib w bt s = (Skipped, s\<lparr>trace := trace s @ [Logged WARN]\<rparr>)"
    by (simp add: performBackup_skipped emit_def)
next
  assume "\<not> isBackupRunning s"
  then show "\<exists>out s' es1 es2.
         performBackup cfg lib w bt s = (Ran out, s') \<and> \<not> isBackupRunning s' \<and>
         trace s' = trace s @ SetRunning True # es1 @ SetRunning False # es2 \<and>
         no_lock_events es1 \<and> no_lock_events es2"
    using performBackup_started [of s cfg lib w bt] by blast
qed

theorem mutual_exclusion_witness:
  "reachable sample_config sample_library after_trigger \<and>
   isBackupRunning (sys_state after_trigger) \<and>
   length (inflight after_trigger) = 1 \<and>
   fire sample_config sample_library (Trigger (Some Weekly) failing_dump) after_trigger
     = Some (after_trigger\<lparr>sys_state :=
               (sys_state after_trigger)\<lparr>trace := trace (sys_state after_trigger) @ [Logged WARN]\<rparr>\<rparr>) \<and>
   performBackup sample_config sample_library failing_dump (Some Weekly) (sys_state after_trigger)
     = (Skipped, (sys_state after_trigger)\<lparr>trace := trace (sys_state after_trigger) @ [Logged WARN]\<rparr>) \<and>
   \<not> isBackupRunning idle_state \<and>
   \<not> isBackupRunning (snd (performBackup sample_config sample_library failing_dump (Some Daily) idle_state))"
proof -
  have r: "reachable sample_config sample_library after_trigger"
    using reachable.step [OF reachable.start after_trigger_fired(1)] .
  have i: "\<not> isBackupRunning idle_state" by (simp add: idle_state_def)
  note m1 = mutual_exclusion [of sample_config sample_library after_trigger "Some Weekly"
      failing_dump "sys_state after_trigger"]
  note m2 = mutual_exclusion [of sample_config sample_library after_trigger "Some Daily"
      failing_dump idle_state]
  have "length (inflight after_trigger) = 1"
    using m1 r after_trigger_fired(2) by (cases "inflight after_trigger") auto
  moreover have "\<not> isBackupRunning (snd (performBackup sample_config sample_library failing_dump
                    (Some Daily) idle_state))"
    using m2 i by auto
  ultimately show ?thesis
    using m1 r i after_trigger_fired(2) by simp
qed

text \<open>
  C3, as the claim has it, fails. The directory of the attempt is made before the dump is
  launched and stays when the dump fails: a new directory exists afterwards. And the
  age-based statement of the retention selects rows of any status, failed ones too.
\<close>

theorem failed_dump_leaves_directory_counterexample:
  "w_dump failing_dump = DumpError ''Command failed: mongodump'' \<and>
   ''/backups/daily/20240308_100000_shop'' \<notin> dirs idle_state \<and>
   ''/backups/daily/20240308_100000_shop''
      \<in> dirs (snd (performBackup sample_config sample_library failing_dump (Some Daily) idle_state)) \<and>
   row_status failed_weekly_row = Failed \<and>
   select_older sample_library Weekly ''2024-02-09'' [failed_weekly_row] = [failed_weekly_row]"
proof -
  obtain row where
    "performBackup sample_config sample_library failing_dump (Some Daily) idle_state
          = (Ran Resolved,
             idle_state\<lparr> isBackupRunning := False, currentBackupInfo := None,
               backups := backups idle_state @ [row],
               dirs := insert (attempt_dir sample_config sample_library failing_dump (Some Daily))
                         (dirs idle_state),
               trace := trace idle_state @
                 [SetRunning True, Logged INFO,
                  Mkdir (attempt_dir sample_config sample_library failing_dump (Some Daily)),
                  Logged INFO, Logged INFO,
                  Exec (mongodump_command sample_config
                          (attempt_dir sample_config sample_library failing_dump (Some Daily))),
                  Logged ERROR, Insert row, SetRunning False] \<rparr>)"
    using performBackup_dump_failure [OF idle_state_simps(1) failing_dump_simps(1-3),
        of sample_config sample_library "Some Daily"]
    by blast
  then have "''/backups/daily/20240308_100000_shop''
      \<in> dirs (snd (performBackup sample_config sample_library failing_dump (Some Daily) idle_state))"
    by (simp add: sample_attempt_dir)
  moreover have "select_older sample_library Weekly ''2024-02-09'' [failed_weekly_row] = [failed_weekly_row]"
    by (simp add: select_older_def sample_library_def failed_weekly_row_def)
  moreover have "row_status failed_weekly_row = Failed"
    by (simp add: failed_weekly_row_def)
  ultimately show ?thesis
    by (simp add: failing_dump_simps idle_state_simps)
qed

text \<open>
  C3, amended. When the dump fails (and the directory could be made and the failure record
  be inserted), the attempt adds exactly one row, a failed one with the error message and
  size zero; it leaves the directory it made for the dump and removes none; no effect of
  the retention occurs; the lock is free and the current backup cleared afterwards. The
  count-based statement of the daily retention selects successful daily rows only; the
  age-based statement selects the rows of its type before the cut-off, whatever their
  status.
\<close>

theorem dump_failure_isolated:
  assumes "\<not> isBackupRunning s" and "w_mkdir_error w = None"
    and "w_dump w = DumpError message" and "w_fail_save_error w = None"
  shows "fst (performBackup cfg lib w bt s) = Ran Resolved \<and>
         (\<exists>row. backups (snd (performBackup cfg lib w bt s)) = backups s @ [row] \<and>
                row_status row = Failed \<and> error_message row = Some message \<and>
                row_type row = attempt_type cfg w bt \<and> backup_size_bytes row = 0) \<and>
         dirs (snd (performBackup cfg lib w bt s)) = insert (attempt_dir cfg lib w bt) (dirs s) \<and>
         (\<exists>es. trace (snd (performBackup cfg lib w bt s)) = trace s @ es \<and> (\<forall>p. Rm p \<notin> set es)) \<and>
         \<not> isBackupRunning (snd (performBackup cfg lib w bt s)) \<and>
         currentBackupInfo (snd (performBackup cfg lib w bt s)) = None \<and>
         (\<forall>r \<in> set (select_daily lib today rows). row_status r = Success \<and> row_type r = Daily) \<and>
         set (select_older lib t cutoffDate rows)
           = {r \<in> set rows. row_type r = t \<and>
                (\<exists>d. sql_date lib (row_timestamp r) = Some d \<and> d < cutoffDate)}"
proof -
  obtain row where
    "performBackup cfg lib w bt s =
           (Ran Resolved,
            s\<lparr> isBackupRunning := False, currentBackupInfo := None,
               backups := backups s @ [row],
               dirs := insert (attempt_dir cfg lib w bt) (dirs s),
               trace := trace s @
                 [SetRunning True, Logged INFO, Mkdir (attempt_dir cfg lib w bt), Logged INFO,
                  Logged INFO, Exec (mongodump_command cfg (attempt_dir cfg lib w bt)),
                  Logged ERROR, Insert row, SetRunning False] \<rparr>)"
    "row_status row = Failed" "error_message row = Some message"
    "row_type row = attempt_type cfg w bt" "backup_size_bytes row = 0"
    using performBackup_dump_failure [OF assms, of cfg lib bt] by blast
  moreover have "\<forall>r \<in> set (select_daily lib today rows). row_status r = Success \<and> row_type r = Daily"
    by (simp add: select_daily_def set_order_by_timestamp_desc)
  moreover have "set (select_older lib t cutoffDate rows)
           = {r \<in> set rows. row_type r = t \<and>
                (\<exists>d. sql_date lib (row_timestamp r) = Some d \<and> d < cutoffDate)}"
    by (auto simp: select_older_def split: option.splits)
  ultimately show ?thesis by simp
qed

theorem dump_failure_isolated_witness:
  "\<not> isBackupRunning idle_state \<and> w_mkdir_error failing_dump = None \<and>
   w_dump failing_dump = DumpError ''Command failed: mongodump'' \<and>
   w_fail_save_error failing_dump = None \<and>
   fst (performBackup sample_config sample_library failing_dump (Some Daily) idle_state) = Ran Resolved \<and>
   (\<exists>row. backups (snd (performBackup sample_config sample_library failing_dump (Some Daily) idle_state))
            = [row] \<and>
          row_status row = Failed \<and> error_message row = Some ''Command failed: mongodump'') \<and>
   dirs (snd (performBackup sample_config sample_library failing_dump (Some Daily) idle_state))
     = {''/backups/daily/20240308_100000_shop''} \<and>
   \<not> isBackupRunning (snd (performBackup sample_config sample_library failing_dump (Some Daily) idle_state))"
  using dump_failure_isolated [OF idle_state_simps(1) failing_dump_simps(1-3),
      of sample_config sample_library "Some Daily" "''2024-03-08''" "[]" Weekly "''2024-02-09''"]
  by (simp add: idle_state_simps failing_dump_simps sample_attempt_dir) blast

text \<open>
  C9, at a failing input. The dump fails two seconds after the directory was named. The
  \<open>catch\<close> block derives the folder name again, from a new reading of the clock: the
  failure record names \<open>20240308_100002_shop\<close>, the directory made for the attempt is
  \<open>20240308_100000_shop\<close>.
\<close>

theorem failure_record_names_other_folder:
  "dirs (snd (performBackup sample_config sample_library slow_failing_dump (Some Daily) idle_state))
     = {''/backups/daily/20240308_100000_shop''} \<and>
   map row_status (backups (snd (performBackup sample_config sample_library slow_failing_dump
                                   (Some Daily) idle_state))) = [Failed] \<and>
   map folder_name (backups (snd (performBackup sample_config sample_library slow_failing_dump
                                    (Some Daily) idle_state))) = [''20240308_100002_shop'']"
proof -
  obtain row where
    "performBackup sample_config sample_library slow_failing_dump (Some Daily) idle_state
          = (Ran Resolved,
             idle_state\<lparr> isBackupRunning := False, currentBackupInfo := None,
               backups := backups idle_state @ [row],
               dirs := insert (attempt_dir sample_config sample_library slow_failing_dump (Some Daily))
                         (dirs idle_state),
               trace := trace idle_state @
                 [SetRunning True, Logged INFO,
                  Mkdir (attempt_dir sample_config sample_library slow_failing_dump (Some Daily)),
                  Logged INFO, Logged INFO,
                  Exec (mongodump_command sample_config
                          (attempt_dir sample_config sample_library slow_failing_dump (Some Daily))),
                  Logged ERROR, Insert row, SetRunning False] \<rparr>)"
    "row_status row = Failed"
    "folder_name row = generateBackupFolderName (w_fail_folder_date slow_failing_dump)
                         (extractDatabaseName sample_library (MONGO_CONNECTION_STRING sample_config))"
    using performBackup_dump_failure [OF idle_state_simps(1) failing_dump_simps(4-6),
        of sample_config sample_library "Some Daily"]
    by blast
  then show ?thesis
    by (simp add: sample_attempt_dir idle_state_simps failing_dump_simps sample_names)
qed

text \<open>
  C10. \<open>parseBackupStats\<close> counts the lines that contain \<open>done dumping\<close> and leaves the
  counts of documents and indexes at zero; every row that \<open>performBackup\<close> inserts, for
  a success or for a failure, has zero documents and zero indexes.
\<close>

theorem documents_and_indexes_stay_zero:
  "documents (parseBackupStats out) = 0 \<and> indexes (parseBackupStats out) = 0 \<and>
   collections (parseBackupStats out)
     = length (filter (\<lambda>line. str_includes line ''done dumping'') (str_split (CHR 0x0A) out)) \<and>
   (\<exists>new. backups (snd (performBackup cfg lib w bt s)) = backups s @ new \<and>
          (\<forall>r \<in> set new. documents_count r = 0 \<and> indexes_count r = 0))"
proof -
  obtain new where "backups (snd (performBackup cfg lib w bt s)) = backups s @ new"
    "list_all counts_zero new"
    using performBackup_appends by blast
  then have "\<exists>new. backups (snd (performBackup cfg lib w bt s)) = backups s @ new \<and>
          (\<forall>r \<in> set new. documents_count r = 0 \<and> indexes_count r = 0)"
    by (auto simp: list_all_iff counts_zero_def)
  then show ?thesis
    by (simp add: parseBackupStats_counts)
qed

theorem documents_and_indexes_stay_zero_witness:
  "collections (parseBackupStats dump_output) = 2 \<and>
   documents (parseBackupStats dump_output) = 0 \<and> indexes (parseBackupStats dump_output) = 0 \<and>
   (\<exists>row. backups (snd (performBackup sample_config sample_library good_dump (Some Daily) idle_state))
             = backups idle_state @ [row] \<and>
          row_status row = Success \<and> documents_count row = 0 \<and> indexes_count row = 0)"
proof -
  obtain row mid where
    "performBackup sample_config sample_library good_dump (Some Daily) idle_state =
       (Ran Resolved,
        run_callbacks sample_config sample_library
          (map (\<lambda>q. (q, w_query_error good_dump))
             (cleanupOldBackups sample_config (w_cleanup_moment good_dump)
                (attempt_type sample_config good_dump (Some Daily)))) mid)"
    "backups mid = backups idle_state @ [row]" "row_status row = Success"
    using performBackup_success [OF idle_state_simps(1) good_dump_simps,
        of sample_config sample_library "Some Daily"]
    by blast
  then have "backups (snd (performBackup sample_config sample_library good_dump (Some Daily) idle_state))
               = backups idle_state @ [row]" "row_status row = Success"
    by simp_all
  then show ?thesis
    using documents_and_indexes_stay_zero [of dump_output sample_config sample_library good_dump
        "Some Daily" idle_state] dump_output_collections
    by auto
qed

text \<open>
  C8. When a successful record of a type (weekly, monthly, yearly) exists with a time
  stamp at or after the start of the current period of that type,
  \<open>checkAndCreateMissingBackups\<close> calls \<open>performBackup\<close> for that type not at all. When
  this holds for every enabled type and no backup is running, the function does nothing
  and leaves the state as it was; run again, it does the same.
\<close>

theorem backfill_idempotent:
  "(t \<in> {Weekly, Monthly, Yearly} \<and> has_success_since lib t (period_start bw t) (backups s)
      \<longrightarrow> t \<notin> set (called_types (fst (checkAndCreateMissingBackups cfg lib bw s)))) \<and>
   (\<not> isBackupRunning s \<and>
    (\<forall>t \<in> {Weekly, Monthly, Yearly}.
        enabled cfg t \<longrightarrow> has_success_since lib t (period_start bw t) (backups s))
      \<longrightarrow> checkAndCreateMissingBackups cfg lib bw s = (Checked [], s) \<and>
          checkAndCreateMissingBackups cfg lib bw (snd (checkAndCreateMissingBackups cfg lib bw s))
            = checkAndCreateMissingBackups cfg lib bw s)"
proof (rule conjI; rule impI)
  assume a: "t \<in> {Weekly, Monthly, Yearly} \<and> has_success_since lib t (period_start bw t) (backups s)"
  show "t \<notin> set (called_types (fst (checkAndCreateMissingBackups cfg lib bw s)))"
  proof (cases "isBackupRunning s")
    case True
    then show ?thesis by (simp add: checkAndCreateMissingBackups_def called_types_def)
  next
    case False
    obtain b1 s1 where 1: "backfill_step cfg lib bw Weekly (NUMBER_OF_WEEKLY_BACKUPS cfg)
                             (bf_weekStart bw) (Checked [], s) = (b1, s1)"
      by (cases "backfill_step cfg lib bw Weekly (NUMBER_OF_WEEKLY_BACKUPS cfg)
                   (bf_weekStart bw) (Checked [], s)") auto
    obtain b2 s2 where 2: "backfill_step cfg lib bw Monthly (NUMBER_OF_MONTHLY_BACKUPS cfg)
                             (bf_monthStart bw) (b1, s1) = (b2, s2)"
      by (cases "backfill_step cfg lib bw Monthly (NUMBER_OF_MONTHLY_BACKUPS cfg)
                   (bf_monthStart bw) (b1, s1)") auto
    obtain b3 s3 where 3: "backfill_step cfg lib bw Yearly (NUMBER_OF_YEARLY_BACKUPS cfg)
                             (bf_yearStart bw) (b2, s2) = (b3, s3)"
      by (cases "backfill_step cfg lib bw Yearly (NUMBER_OF_YEARLY_BACKUPS cfg)
                   (bf_yearStart bw) (b2, s2)") auto
    note f1 = backfill_step_facts [OF 1] and f2 = backfill_step_facts [OF 2]
      and f3 = backfill_step_facts [OF 3]
    have r: "fst (checkAndCreateMissingBackups cfg lib bw s) = b3"
      using False 1 2 3 by (simp add: checkAndCreateMissingBackups_def)
    obtain n1 n2 where g: "backups s1 = backups s @ n1" "backups s2 = backups s1 @ n2"
      using f1 f2 by blast
    consider "t = Weekly" | "t = Monthly" | "t = Yearly" using a by blast
    then have "t \<notin> set (called_types b3)"
    proof cases
      case 1
      then have "b1 = Checked []" using a f1 by (simp add: period_start_def)
      then show ?thesis using f2 f3 1 by (auto simp: called_types_def)
    next
      case 2
      then have "has_success_since lib Monthly (bf_monthStart bw) (backups s1)"
        using a g(1) by (simp add: period_start_def has_success_since_append)
      then have "b2 = b1" using f2 by simp
      then show ?thesis using f1 f3 2 by (auto simp: called_types_def)
    next
      case 3
      then have "has_success_since lib Yearly (bf_yearStart bw) (backups s2)"
        using a g by (simp add: period_start_def has_success_since_append)
      then have "b3 = b2" using f3 by simp
      then show ?thesis using f1 f2 3 by (auto simp: called_types_def)
    qed
    then show ?thesis using r by simp
  qed
next
  assume a: "\<not> isBackupRunning s \<and>
    (\<forall>t \<in> {Weekly, Monthly, Yearly}.
        enabled cfg t \<longrightarrow> has_success_since lib t (period_start bw t) (backups s))"
  have step: "backfill_step cfg lib bw t (n) (period_start bw t) (Checked [], s) = (Checked [], s)"
    if "0 < n \<longrightarrow> has_success_since lib t (period_start bw t) (backups s)" for t n
    using that by (auto simp: backfill_step_def Let_def count_success_since_zero)
  have w: "backfill_step cfg lib bw Weekly (NUMBER_OF_WEEKLY_BACKUPS cfg) (bf_weekStart bw)
             (Checked [], s) = (Checked [], s)"
    using step [of "NUMBER_OF_WEEKLY_BACKUPS cfg" Weekly] a by (simp add: enabled_def period_start_def)
  have m: "backfill_step cfg lib bw Monthly (NUMBER_OF_MONTHLY_BACKUPS cfg) (bf_monthStart bw)
             (Checked [], s) = (Checked [], s)"
    using step [of "NUMBER_OF_MONTHLY_BACKUPS cfg" Monthly] a by (simp add: enabled_def period_start_def)
  have y: "backfill_step cfg lib bw Yearly (NUMBER_OF_YEARLY_BACKUPS cfg) (bf_yearStart bw)
             (Checked [], s) = (Checked [], s)"
    using step [of "NUMBER_OF_YEARLY_BACKUPS cfg" Yearly] a by (simp add: enabled_def period_start_def)
  show "checkAndCreateMissingBackups cfg lib bw s = (Checked [], s) \<and>
          checkAndCreateMissingBackups cfg lib bw (snd (checkAndCreateMissingBackups cfg lib bw s))
            = checkAndCreateMissingBackups cfg lib bw s"
    using a w m y by (simp add: checkAndCreateMissingBackups_def)
qed

theorem backfill_idempotent_witness:
  "Monthly \<in> {Weekly, Monthly, Yearly} \<and>
   has_success_since sample_library Monthly (period_start march_backfill Monthly) (backups covered_state) \<and>
   Monthly \<notin> set (called_types (fst (checkAndCreateMissingBackups sample_config sample_library
                                        march_backfill covered_state))) \<and>
   \<not> isBackupRunning covered_state \<and>
   enabled sample_config Monthly \<and>
   checkAndCreateMissingBackups sample_config sample_library march_backfill covered_state
     = (Checked [], covered_state) \<and>
   checkAndCreateMissingBackups sample_config sample_library march_backfill
       (snd (checkAndCreateMissingBackups sample_config sample_library march_backfill covered_state))
     = (Checked [], covered_state)"
proof -
  have i: "\<not> isBackupRunning covered_state"
    by (simp add: covered_state_def idle_state_def)
  have e: "enabled sample_config Monthly"
    by (simp add: enabled_def sample_config_simps)
  show ?thesis
    using backfill_idempotent [of Monthly sample_library march_backfill covered_state sample_config]
      covered_state_has_success i e
    by auto
qed







text \<open>
  C7, at a failing input. \<open>MAX_AGE_OF_WEEKLY_BACKUPS\<close> is configured as \<open>0\<close>. The
  default takes its place, the setting in force is \<open>4\<close>, and the weekly retention
  removes the directories of the records older than four weeks.
\<close>

theorem zero_max_age_still_deletes:
  "env_MAX_AGE_OF_WEEKLY_BACKUPS zero_age_environment = Some 0 \<and>
   MAX_AGE_OF_WEEKLY_BACKUPS (load_config zero_age_environment) = 4 \<and>
   load_config zero_age_environment = sample_config \<and>
   dirs weekly_state = {''/backups/weekly/20240202_000000_shop'',
                        ''/backups/weekly/20240206_000000_shop'',
                        ''/backups/weekly/20240209_000000_shop''} \<and>
   dirs (retention (load_config zero_age_environment) sample_library march_8th Weekly weekly_state)
     = {''/backups/weekly/20240209_000000_shop''}"
proof -
  have "load_config zero_age_environment = sample_config"
    by (simp add: zero_age_environment_def sample_config_def sample_environment_def load_config_def
          or_default_def)
  then show ?thesis
    by (simp add: weekly_retention_example sample_config_simps)
       (simp add: zero_age_environment_def weekly_state_def idle_state_def)
qed

text \<open>
  The other sentinels do what C7 says: \<open>-1\<close> for \<open>MAX_DAILY_BACKUPS\<close> and a negative
  maximum age leave every directory in place.
\<close>

lemma sentinels_switch_retention_off:
  "MAX_DAILY_BACKUPS cfg = - 1 \<Longrightarrow> retention cfg lib now Daily s = s"
  "(t, maxAge, unit) \<in> set (ageConfigs cfg) \<Longrightarrow> maxAge < 0 \<Longrightarrow> retention cfg lib now t s = s"
  by (simp_all add: retention_def cleanupOldBackups_daily cleanupOldBackups_aged run_callbacks_def)

end
